theory Spec2Isabelle
  imports Complex_Main
begin

section \<open>Python values\<close>

text \<open>
  The two example plugins (\<^verbatim>\<open>cpu_monitor.py\<close>, \<^verbatim>\<open>service_restart.py\<close>) exchange
  JSON-shaped Python values with their host. A Python \<^verbatim>\<open>float\<close> is a finite number, an
  infinity or NaN (\<^verbatim>\<open>json.loads\<close> accepts all of them); the code only compares floats, and
  finite floats compare as the reals they denote. A \<^verbatim>\<open>dict\<close> is an association list in
  insertion order, its keys strings as in JSON. A \<^verbatim>\<open>str\<close> is a list of code points below
  256. \<open>VTime t\<close> stands for the string \<^verbatim>\<open>d.isoformat()\<close> of the clock reading \<open>t\<close>
  (microseconds).
\<close>

datatype pyfloat = Fin real | PInf | NInf | NaN

datatype pyval =
    VNone
  | VBool bool
  | VInt int
  | VFloat pyfloat
  | VStr string
  | VList "pyval list"
  | VDict "(string \<times> pyval) list"
  | VTime int

text \<open>\<open>fle a b\<close> is Python's \<^verbatim>\<open>a <= b\<close> and \<open>flt a b\<close> is \<^verbatim>\<open>a < b\<close> on floats.\<close>

fun fle :: "pyfloat \<Rightarrow> pyfloat \<Rightarrow> bool" where
  "fle NaN _ = False"
| "fle _ NaN = False"
| "fle NInf _ = True"
| "fle _ PInf = True"
| "fle (Fin a) (Fin b) = (a \<le> b)"
| "fle PInf _ = False"
| "fle _ NInf = False"

fun flt :: "pyfloat \<Rightarrow> pyfloat \<Rightarrow> bool" where
  "flt NaN _ = False"
| "flt _ NaN = False"
| "flt PInf _ = False"
| "flt _ NInf = False"
| "flt (Fin a) (Fin b) = (a < b)"
| "flt NInf _ = True"
| "flt _ PInf = True"

text \<open>Exceptions: the class and the text of \<^verbatim>\<open>str(e)\<close>. The texts of the interpreter's
  own errors are CPython 3.11's.\<close>

datatype exn_class =
    KeyError | TypeError | AttributeError | ValueError | OverflowError | RuntimeError
  | FileNotFoundError | TimeoutExpired | CalledProcessError | OtherError

datatype exn = Exn exn_class string

fun str_exn :: "exn \<Rightarrow> string" where
  "str_exn (Exn _ m) = m"

definition squote :: string where
  "squote = [CHR 0x27]"

fun type_name :: "pyval \<Rightarrow> string" where
  "type_name VNone = ''NoneType''"
| "type_name (VBool _) = ''bool''"
| "type_name (VInt _) = ''int''"
| "type_name (VFloat _) = ''float''"
| "type_name (VStr _) = ''str''"
| "type_name (VList _) = ''list''"
| "type_name (VDict _) = ''dict''"
| "type_name (VTime _) = ''str''"

text \<open>\<^verbatim>\<open>d.get(k, default)\<close>: only a dict has the method.\<close>

definition py_get :: "pyval \<Rightarrow> string \<Rightarrow> pyval \<Rightarrow> exn + pyval" where
  "py_get d k dflt =
     (case d of
        VDict kvs \<Rightarrow> Inr (case map_of kvs k of None \<Rightarrow> dflt | Some v \<Rightarrow> v)
      | _ \<Rightarrow> Inl (Exn AttributeError
                 (squote @ type_name d @ squote @ '' object has no attribute '' @ squote @ ''get'' @ squote)))"

text \<open>\<^verbatim>\<open>d[k]\<close> with a string key: a dict without the key raises \<^verbatim>\<open>KeyError(k)\<close>, whose
  \<^verbatim>\<open>str\<close> is the key in quotes; every other value raises \<^verbatim>\<open>TypeError\<close>.\<close>

definition py_getitem :: "pyval \<Rightarrow> string \<Rightarrow> exn + pyval" where
  "py_getitem d k =
     (case d of
        VDict kvs \<Rightarrow>
          (case map_of kvs k of
             None \<Rightarrow> Inl (Exn KeyError (squote @ k @ squote))
           | Some v \<Rightarrow> Inr v)
      | VList _ \<Rightarrow> Inl (Exn TypeError ''list indices must be integers or slices, not str'')
      | VStr _ \<Rightarrow> Inl (Exn TypeError (''string indices must be integers, not '' @ squote @ ''str'' @ squote))
      | VTime _ \<Rightarrow> Inl (Exn TypeError (''string indices must be integers, not '' @ squote @ ''str'' @ squote))
      | _ \<Rightarrow> Inl (Exn TypeError (squote @ type_name d @ squote @ '' object is not subscriptable'')))"

text \<open>\<^verbatim>\<open>d[k] = v\<close> on a dict: an existing key keeps its place, a new one goes last.\<close>

fun dict_set :: "(string \<times> pyval) list \<Rightarrow> string \<Rightarrow> pyval \<Rightarrow> (string \<times> pyval) list" where
  "dict_set [] k v = [(k, v)]"
| "dict_set ((k', v') # kvs) k v = (if k' = k then (k, v) # kvs else (k', v') # dict_set kvs k v)"

text \<open>\<^verbatim>\<open>d.update(other)\<close>.\<close>

fun dict_update :: "(string \<times> pyval) list \<Rightarrow> (string \<times> pyval) list \<Rightarrow> (string \<times> pyval) list" where
  "dict_update d [] = d"
| "dict_update d ((k, v) # kvs) = dict_update (dict_set d k v) kvs"

text \<open>Truth value of a Python object (\<^verbatim>\<open>if x\<close>, \<^verbatim>\<open>not x\<close>, \<^verbatim>\<open>x and y\<close>).\<close>

fun truthy :: "pyval \<Rightarrow> bool" where
  "truthy VNone = False"
| "truthy (VBool b) = b"
| "truthy (VInt n) = (n \<noteq> 0)"
| "truthy (VFloat f) = (f \<noteq> Fin 0)"
| "truthy (VStr s) = (s \<noteq> [])"
| "truthy (VList xs) = (xs \<noteq> [])"
| "truthy (VDict kvs) = (kvs \<noteq> [])"
| "truthy (VTime _) = True"

text \<open>\<^verbatim>\<open>td.total_seconds()\<close> of a difference of two clock readings.\<close>

definition total_seconds :: "int \<Rightarrow> pyval" where
  "total_seconds us = VFloat (Fin (real_of_int us / 1000000))"

text \<open>Decimal digits of an integer, as \<^verbatim>\<open>str(n)\<close> and an f-string print it.\<close>

function str_nat :: "nat \<Rightarrow> string" where
  "str_nat n = (if n < 10 then [char_of (48 + n)] else str_nat (n div 10) @ [char_of (48 + n mod 10)])"
  by pat_completeness auto
termination
  by (relation "measure id") auto

definition str_int :: "int \<Rightarrow> string" where
  "str_int i = (if i < 0 then CHR ''-'' # str_nat (nat (- i)) else str_nat (nat i))"

section \<open>The host\<close>

text \<open>
  What the plugins read from outside themselves. Every reading that changes over time is
  a function of the number of readings made so far, a counter that each reading advances
  (the \<open>nat\<close> threaded through every operation below): \<open>clock\<close> is \<^verbatim>\<open>datetime.now()\<close>
  in microseconds, \<open>epoch_seconds\<close> is \<^verbatim>\<open>int(time.time())\<close>, \<open>cpu_percent\<close> is
  \<^verbatim>\<open>psutil.cpu_percent(interval=1)\<close>, the sampling that may fail, \<open>getloadavg\<close> is
  \<^verbatim>\<open>os.getloadavg\<close> where the platform has it, \<open>run_proc\<close> is \<^verbatim>\<open>subprocess.run\<close> giving
  the return code, standard output and standard error, or the exception it raised. The
  rest are fixed facts of the host and library functions, taken as values:
  \<^verbatim>\<open>psutil.cpu_count()\<close>, \<^verbatim>\<open>os.uname().nodename\<close>, \<^verbatim>\<open>os.getenv\<close>, \<^verbatim>\<open>float\<close> and \<^verbatim>\<open>int\<close>
  on a string, \<^verbatim>\<open>json.loads\<close> (\<open>None\<close> for \<^verbatim>\<open>JSONDecodeError\<close>), \<^verbatim>\<open>repr\<close>, and the text
  that \<^verbatim>\<open>isoformat\<close> gives a clock reading. Log records go to standard error and are not
  part of the model, and neither is \<^verbatim>\<open>KeyboardInterrupt\<close>.
\<close>

record host =
  clock :: "nat \<Rightarrow> int"
  epoch_seconds :: "nat \<Rightarrow> int"
  cpu_percent :: "nat \<Rightarrow> exn + pyfloat"
  getloadavg :: "(nat \<Rightarrow> pyval) option"
  run_proc :: "nat \<Rightarrow> string list \<Rightarrow> exn + (int \<times> string \<times> string)"
  cpu_count :: pyval
  nodename :: string
  getenv :: "string \<Rightarrow> string option"
  parse_float :: "string \<Rightarrow> pyfloat option"
  parse_int :: "string \<Rightarrow> int option"
  json_loads :: "string \<Rightarrow> pyval option"
  py_repr :: "pyval \<Rightarrow> string"
  isoformat :: "int \<Rightarrow> string"

text \<open>\<^verbatim>\<open>str(v)\<close>, as an f-string formats \<^verbatim>\<open>{v}\<close>.\<close>

definition py_str :: "host \<Rightarrow> pyval \<Rightarrow> string" where
  "py_str h v =
     (case v of
        VStr s \<Rightarrow> s
      | VTime t \<Rightarrow> isoformat h t
      | VNone \<Rightarrow> ''None''
      | VBool b \<Rightarrow> (if b then ''True'' else ''False'')
      | VInt n \<Rightarrow> str_int n
      | _ \<Rightarrow> py_repr h v)"

text \<open>The text of a value that is a \<^verbatim>\<open>str\<close>; \<open>None\<close> for every other value. A comparison
  \<^verbatim>\<open>v == "text"\<close> is \<open>as_str h v = Some ''text''\<close>.\<close>

definition as_str :: "host \<Rightarrow> pyval \<Rightarrow> string option" where
  "as_str h v = (case v of VStr s \<Rightarrow> Some s | VTime t \<Rightarrow> Some (isoformat h t) | _ \<Rightarrow> None)"

text \<open>\<^verbatim>\<open>float(v)\<close>. An int converts exactly up to the range of a double (rounding of
  ints beyond 2^53 is not modelled); beyond it \<^verbatim>\<open>OverflowError\<close>.\<close>

definition py_float :: "host \<Rightarrow> pyval \<Rightarrow> exn + pyfloat" where
  "py_float h v =
     (case v of
        VFloat f \<Rightarrow> Inr f
      | VInt n \<Rightarrow>
          (if \<bar>n\<bar> < 2 ^ 1024 - 2 ^ 970 then Inr (Fin (real_of_int n))
           else Inl (Exn OverflowError ''int too large to convert to float''))
      | VBool b \<Rightarrow> Inr (Fin (if b then 1 else 0))
      | VStr s \<Rightarrow>
          (case parse_float h s of
             Some f \<Rightarrow> Inr f
           | None \<Rightarrow> Inl (Exn ValueError (''could not convert string to float: '' @ py_repr h v)))
      | VTime t \<Rightarrow>
          (case parse_float h (isoformat h t) of
             Some f \<Rightarrow> Inr f
           | None \<Rightarrow> Inl (Exn ValueError (''could not convert string to float: '' @ py_repr h v)))
      | _ \<Rightarrow> Inl (Exn TypeError
                 (''float() argument must be a string or a real number, not '' @ squote @ type_name v @ squote)))"

text \<open>\<^verbatim>\<open>int(v)\<close>: a float is truncated towards zero.\<close>

definition py_int :: "host \<Rightarrow> pyval \<Rightarrow> exn + int" where
  "py_int h v =
     (case v of
        VInt n \<Rightarrow> Inr n
      | VBool b \<Rightarrow> Inr (if b then 1 else 0)
      | VFloat (Fin r) \<Rightarrow> Inr (if 0 \<le> r then \<lfloor>r\<rfloor> else \<lceil>r\<rceil>)
      | VFloat NaN \<Rightarrow> Inl (Exn ValueError ''cannot convert float NaN to integer'')
      | VFloat _ \<Rightarrow> Inl (Exn OverflowError ''cannot convert float infinity to integer'')
      | VStr s \<Rightarrow>
          (case parse_int h s of
             Some n \<Rightarrow> Inr n
           | None \<Rightarrow> Inl (Exn ValueError (''invalid literal for int() with base 10: '' @ py_repr h v)))
      | VTime t \<Rightarrow>
          (case parse_int h (isoformat h t) of
             Some n \<Rightarrow> Inr n
           | None \<Rightarrow> Inl (Exn ValueError (''invalid literal for int() with base 10: '' @ py_repr h v)))
      | _ \<Rightarrow> Inl (Exn TypeError
                 (''int() argument must be a string, a bytes-like object or a real number, not ''
                  @ squote @ type_name v @ squote)))"

section \<open>Lifecycle shared by both plugins\<close>

text \<open>The fields both classes set in \<^verbatim>\<open>__init__\<close>; \<open>start_time\<close> is \<^verbatim>\<open>None\<close> until the
  first \<^verbatim>\<open>start()\<close>.\<close>

record plugin =
  config :: pyval
  running :: bool
  status :: string
  start_time :: "int option"

text \<open>\<^verbatim>\<open>start()\<close>, the same in both classes: result, new state, new counter. Nothing in
  its \<^verbatim>\<open>try\<close> block can raise, so its handler is never entered.\<close>

definition start :: "host \<Rightarrow> 'a plugin_scheme \<Rightarrow> nat \<Rightarrow> bool \<times> 'a plugin_scheme \<times> nat" where
  "start h s w =
     (if running s then (True, s, w)
      else (True, s\<lparr>running := True, status := ''running'', start_time := Some (clock h w)\<rparr>, Suc w))"

text \<open>\<^verbatim>\<open>stop()\<close>: \<open>start_time\<close> is left as it is.\<close>

definition stop :: "'a plugin_scheme \<Rightarrow> bool \<times> 'a plugin_scheme" where
  "stop s = (True, s\<lparr>running := False, status := ''stopped''\<rparr>)"

definition get_status :: "'a plugin_scheme \<Rightarrow> string" where
  "get_status s = status s"

text \<open>The handler of \<^verbatim>\<open>initialize\<close> in both classes: the error is logged, the state
  becomes \<^verbatim>\<open>"error"\<close>, the call returns \<^verbatim>\<open>False\<close>.\<close>

definition init_failed :: "'a plugin_scheme \<Rightarrow> bool \<times> 'a plugin_scheme" where
  "init_failed s = (False, s\<lparr>status := ''error''\<rparr>)"

section \<open>The CPU monitor (\<^verbatim>\<open>CPUMonitorPlugin\<close>)\<close>

record cpu_monitor = plugin +
  threshold :: pyfloat
  interval :: int

text \<open>\<^verbatim>\<open>CPUMonitorPlugin.__init__\<close>.\<close>

definition cpu_new :: cpu_monitor where
  "cpu_new =
     \<lparr>config = VDict [], running = False, status = ''stopped'', start_time = None,
      threshold = Fin 80, interval = 30\<rparr>"

text \<open>\<^verbatim>\<open>CPUMonitorPlugin.get_info\<close>: the dict literal reads the clock twice, in order.\<close>

definition cpu_get_info :: "host \<Rightarrow> nat \<Rightarrow> pyval \<times> nat" where
  "cpu_get_info h w =
     (VDict
        [(''id'', VStr ''cpu-monitor''),
         (''name'', VStr ''CPU Monitor''),
         (''description'', VStr ''Monitors CPU usage and triggers alerts when threshold is exceeded''),
         (''version'', VStr ''1.0.0''),
         (''author'', VStr ''Stavily Team''),
         (''license'', VStr ''MIT''),
         (''type'', VStr ''trigger''),
         (''tags'', VList [VStr ''system'', VStr ''monitoring'', VStr ''cpu'']),
         (''categories'', VList [VStr ''system-monitoring'']),
         (''created_at'', VTime (clock h w)),
         (''updated_at'', VTime (clock h (Suc w)))],
      Suc (Suc w))"

text \<open>\<^verbatim>\<open>CPUMonitorPlugin.initialize\<close>. Each assignment to \<^verbatim>\<open>self\<close> made before an
  exception stays, so a rejected threshold is stored all the same.\<close>

definition cpu_initialize :: "host \<Rightarrow> pyval \<Rightarrow> cpu_monitor \<Rightarrow> bool \<times> cpu_monitor" where
  "cpu_initialize h cfg s =
     (let s1 = s\<lparr>config := cfg\<rparr> in
      case py_get cfg ''threshold'' (VFloat (Fin 80)) of
        Inl e \<Rightarrow> init_failed s1
      | Inr tv \<Rightarrow>
          (case py_float h tv of
             Inl e \<Rightarrow> init_failed s1
           | Inr t \<Rightarrow>
               (let s2 = s1\<lparr>threshold := t\<rparr> in
                case py_get cfg ''interval'' (VInt 30) of
                  Inl e \<Rightarrow> init_failed s2
                | Inr iv \<Rightarrow>
                    (case py_int h iv of
                       Inl e \<Rightarrow> init_failed s2
                     | Inr i \<Rightarrow>
                         (let s3 = s2\<lparr>interval := i\<rparr> in
                          if \<not> (fle (Fin 0) t \<and> fle t (Fin 100)) then init_failed s3
                          else if i < 1 then init_failed s3
                          else (True, s3\<lparr>status := ''initialized''\<rparr>))))))"

text \<open>\<^verbatim>\<open>CPUMonitorPlugin.get_health\<close>: the clock for \<^verbatim>\<open>last_check\<close>, then the CPU
  sample (outside any \<^verbatim>\<open>try\<close>, so its failure leaves the method), then, when
  \<^verbatim>\<open>start_time\<close> is set, the clock again for the uptime.\<close>

definition cpu_get_health :: "host \<Rightarrow> cpu_monitor \<Rightarrow> nat \<Rightarrow> (exn + pyval) \<times> nat" where
  "cpu_get_health h s w =
     (case cpu_percent h (Suc w) of
        Inl e \<Rightarrow> (Inl e, Suc (Suc w))
      | Inr usage \<Rightarrow>
          (let health =
                 [(''status'', VStr (if running s then ''healthy'' else ''unhealthy'')),
                  (''message'',
                     VStr (if running s then ''Plugin is running normally'' else ''Plugin is not running'')),
                  (''last_check'', VTime (clock h w)),
                  (''uptime'', VInt 0),
                  (''error_count'', VInt 0),
                  (''metrics'',
                     VDict [(''current_cpu_usage'', VFloat usage), (''threshold'', VFloat (threshold s))])]
           in case start_time s of
                None \<Rightarrow> (Inr (VDict health), Suc (Suc w))
              | Some t0 \<Rightarrow>
                  (Inr (VDict (dict_set health ''uptime'' (total_seconds (clock h (Suc (Suc w)) - t0)))),
                   Suc (Suc (Suc w)))))"

text \<open>\<^verbatim>\<open>CPUMonitorPlugin.detect_triggers\<close>: \<^verbatim>\<open>None\<close> unless running; a failed sample is
  caught and gives \<^verbatim>\<open>None\<close>; an event when the sample is above the threshold.\<close>

definition detect_triggers :: "host \<Rightarrow> cpu_monitor \<Rightarrow> nat \<Rightarrow> pyval \<times> nat" where
  "detect_triggers h s w =
     (if \<not> running s then (VNone, w)
      else
        case cpu_percent h w of
          Inl e \<Rightarrow> (VNone, Suc w)
        | Inr cpu_usage \<Rightarrow>
            if flt (threshold s) cpu_usage then
              (let (load_average, w') =
                     (case getloadavg h of
                        Some f \<Rightarrow> (f (Suc (Suc (Suc w))), Suc (Suc (Suc (Suc w))))
                      | None \<Rightarrow> (VNone, Suc (Suc (Suc w))))
               in (VDict
                     [(''id'', VStr (''cpu-high-'' @ str_int (epoch_seconds h (Suc w)))),
                      (''type'', VStr ''cpu.high''),
                      (''source'', VStr ''cpu-monitor''),
                      (''timestamp'', VTime (clock h (Suc (Suc w)))),
                      (''data'',
                         VDict
                           [(''cpu_usage'', VFloat cpu_usage),
                            (''threshold'', VFloat (threshold s)),
                            (''cpu_count'', cpu_count h),
                            (''load_average'', load_average)]),
                      (''metadata'',
                         VDict
                           [(''plugin_id'', VStr ''cpu-monitor''),
                            (''plugin_version'', VStr ''1.0.0''),
                            (''hostname'', VStr (nodename h))]),
                      (''tags'', VList [VStr ''system'', VStr ''cpu'', VStr ''alert'']),
                      (''severity'', VStr (if flt (Fin 90) cpu_usage then ''high'' else ''medium''))],
                   w'))
            else (VNone, Suc w))"

text \<open>\<^verbatim>\<open>CPUMonitorPlugin.get_trigger_config\<close>.\<close>

definition get_trigger_config :: pyval where
  "get_trigger_config =
     VDict
       [(''schema'',
           VDict
             [(''threshold'',
                 VDict
                   [(''type'', VStr ''number''),
                    (''description'', VStr ''CPU usage threshold percentage (0-100)''),
                    (''default'', VFloat (Fin 80)),
                    (''required'', VBool False),
                    (''minimum'', VFloat (Fin 0)),
                    (''maximum'', VFloat (Fin 100))]),
              (''interval'',
                 VDict
                   [(''type'', VStr ''integer''),
                    (''description'', VStr ''Monitoring interval in seconds''),
                    (''default'', VInt 30),
                    (''required'', VBool False),
                    (''minimum'', VInt 1),
                    (''examples'', VList [VInt 30, VInt 60, VInt 300])])]),
        (''required'', VList []),
        (''examples'',
           VList
             [VDict [(''threshold'', VFloat (Fin 85)), (''interval'', VInt 30)],
              VDict [(''threshold'', VFloat (Fin 90)), (''interval'', VInt 60)]]),
        (''description'', VStr ''CPU monitoring configuration'')]"

section \<open>The service restart plugin (\<^verbatim>\<open>ServiceRestartPlugin\<close>)\<close>

record service_restart = plugin +
  allowed_services :: pyval
  service_manager :: pyval

text \<open>\<^verbatim>\<open>ServiceRestartPlugin.__init__\<close>.\<close>

definition svc_new :: service_restart where
  "svc_new =
     \<lparr>config = VDict [], running = False, status = ''stopped'', start_time = None,
      allowed_services = VList [], service_manager = VStr ''systemctl''\<rparr>"

text \<open>\<^verbatim>\<open>ServiceRestartPlugin.get_info\<close>.\<close>

definition svc_get_info :: "host \<Rightarrow> nat \<Rightarrow> pyval \<times> nat" where
  "svc_get_info h w =
     (VDict
        [(''id'', VStr ''service-restart''),
         (''name'', VStr ''Service Restart''),
         (''description'', VStr ''Restarts system services using systemctl or other service managers''),
         (''version'', VStr ''1.0.0''),
         (''author'', VStr ''Stavily Team''),
         (''license'', VStr ''MIT''),
         (''type'', VStr ''action''),
         (''tags'', VList [VStr ''system'', VStr ''service'', VStr ''restart'']),
         (''categories'', VList [VStr ''system-management'']),
         (''created_at'', VTime (clock h w)),
         (''updated_at'', VTime (clock h (Suc w)))],
      Suc (Suc w))"

text \<open>The three service managers, as the lists \<^verbatim>\<open>["systemctl", "service", "docker"]\<close> of
  \<^verbatim>\<open>initialize\<close> and \<^verbatim>\<open>execute_action\<close>.\<close>

definition is_manager :: "host \<Rightarrow> pyval \<Rightarrow> bool" where
  "is_manager h v = (as_str h v \<in> {Some ''systemctl'', Some ''service'', Some ''docker''})"

text \<open>The \<^verbatim>\<open>except\<close> clause of \<^verbatim>\<open>_check_service_manager\<close>: three classes give \<^verbatim>\<open>False\<close>,
  any other error leaves the method.\<close>

fun probe_failed :: "exn \<Rightarrow> exn + bool" where
  "probe_failed (Exn c m) =
     (if c = CalledProcessError \<or> c = TimeoutExpired \<or> c = FileNotFoundError then Inr False
      else Inl (Exn c m))"

text \<open>\<^verbatim>\<open>ServiceRestartPlugin._check_service_manager\<close>: \<^verbatim>\<open>check=True\<close> turns a non-zero
  return code into \<^verbatim>\<open>CalledProcessError\<close> for \<^verbatim>\<open>systemctl\<close> and \<^verbatim>\<open>docker\<close>, not for
  \<^verbatim>\<open>service\<close>.\<close>

definition check_service_manager :: "host \<Rightarrow> service_restart \<Rightarrow> nat \<Rightarrow> (exn + bool) \<times> nat" where
  "check_service_manager h s w =
     (if as_str h (service_manager s) = Some ''systemctl'' then
        (case run_proc h w [''systemctl'', ''--version''] of
           Inr (rc, out, err) \<Rightarrow> (Inr (rc = 0), Suc w)
         | Inl e \<Rightarrow> (probe_failed e, Suc w))
      else if as_str h (service_manager s) = Some ''service'' then
        (case run_proc h w [''service'', ''--version''] of
           Inr (rc, out, err) \<Rightarrow> (Inr True, Suc w)
         | Inl e \<Rightarrow> (probe_failed e, Suc w))
      else if as_str h (service_manager s) = Some ''docker'' then
        (case run_proc h w [''docker'', ''--version''] of
           Inr (rc, out, err) \<Rightarrow> (Inr (rc = 0), Suc w)
         | Inl e \<Rightarrow> (probe_failed e, Suc w))
      else (Inr True, w))"

text \<open>\<^verbatim>\<open>ServiceRestartPlugin.initialize\<close>.\<close>

definition svc_initialize ::
    "host \<Rightarrow> pyval \<Rightarrow> service_restart \<Rightarrow> nat \<Rightarrow> (bool \<times> service_restart) \<times> nat" where
  "svc_initialize h cfg s w =
     (let s1 = s\<lparr>config := cfg\<rparr> in
      case py_get cfg ''allowed_services'' (VList []) of
        Inl e \<Rightarrow> (init_failed s1, w)
      | Inr allowed \<Rightarrow>
          (let s2 = s1\<lparr>allowed_services := allowed\<rparr> in
           case py_get cfg ''service_manager'' (VStr ''systemctl'') of
             Inl e \<Rightarrow> (init_failed s2, w)
           | Inr manager \<Rightarrow>
               (let s3 = s2\<lparr>service_manager := manager\<rparr> in
                if \<not> is_manager h manager then (init_failed s3, w)
                else
                  case check_service_manager h s3 w of
                    (Inl e, w') \<Rightarrow> (init_failed s3, w')
                  | (Inr available, w') \<Rightarrow>
                      if \<not> available then (init_failed s3, w')
                      else ((True, s3\<lparr>status := ''initialized''\<rparr>), w'))))"

text \<open>\<^verbatim>\<open>len(v)\<close>.\<close>

definition py_len :: "host \<Rightarrow> pyval \<Rightarrow> exn + int" where
  "py_len h v =
     (case v of
        VStr s \<Rightarrow> Inr (int (length s))
      | VTime t \<Rightarrow> Inr (int (length (isoformat h t)))
      | VList xs \<Rightarrow> Inr (int (length xs))
      | VDict kvs \<Rightarrow> Inr (int (length kvs))
      | _ \<Rightarrow> Inl (Exn TypeError (''object of type '' @ squote @ type_name v @ squote @ '' has no len()'')))"

text \<open>\<^verbatim>\<open>ServiceRestartPlugin.get_health\<close>: the clock for \<^verbatim>\<open>last_check\<close>, then the length of
  \<^verbatim>\<open>allowed_services\<close> (whatever value the configuration gave it), then, when
  \<^verbatim>\<open>start_time\<close> is set, the clock again for the uptime.\<close>

definition svc_get_health :: "host \<Rightarrow> service_restart \<Rightarrow> nat \<Rightarrow> (exn + pyval) \<times> nat" where
  "svc_get_health h s w =
     (case py_len h (allowed_services s) of
        Inl e \<Rightarrow> (Inl e, Suc w)
      | Inr n \<Rightarrow>
          (let health =
                 [(''status'', VStr (if running s then ''healthy'' else ''unhealthy'')),
                  (''message'',
                     VStr (if running s then ''Plugin is running normally'' else ''Plugin is not running'')),
                  (''last_check'', VTime (clock h w)),
                  (''uptime'', VInt 0),
                  (''error_count'', VInt 0),
                  (''metrics'',
                     VDict [(''service_manager'', service_manager s), (''allowed_services_count'', VInt n)])]
           in case start_time s of
                None \<Rightarrow> (Inr (VDict health), Suc w)
              | Some t0 \<Rightarrow>
                  (Inr (VDict (dict_set health ''uptime'' (total_seconds (clock h (Suc w) - t0)))),
                   Suc (Suc w))))"

text \<open>\<^verbatim>\<open>ServiceRestartPlugin._is_valid_service_name\<close>, on the text of a string: the pattern
  \<^verbatim>\<open>^[a-zA-Z0-9._-]+$\<close> (whose \<^verbatim>\<open>$\<close> also matches before one final newline) and a length of
  at most 100.\<close>

definition name_char :: "char \<Rightarrow> bool" where
  "name_char c =
     (let n = (of_char c :: nat)
      in (97 \<le> n \<and> n \<le> 122) \<or> (65 \<le> n \<and> n \<le> 90) \<or> (48 \<le> n \<and> n \<le> 57)
         \<or> c = CHR ''.'' \<or> c = CHR ''_'' \<or> c = CHR ''-'')"

definition is_valid_service_name :: "string \<Rightarrow> bool" where
  "is_valid_service_name name =
     (let body = (if name \<noteq> [] \<and> last name = CHR 0x0A then butlast name else name)
      in (body \<noteq> [] \<and> list_all name_char body) \<and> length name \<le> 100)"

text \<open>\<^verbatim>\<open>needle in text\<close> on two strings.\<close>

fun contains :: "string \<Rightarrow> string \<Rightarrow> bool" where
  "contains xs [] = (xs = [])"
| "contains xs (y # ys) = (take (length xs) (y # ys) = xs \<or> contains xs ys)"

text \<open>\<^verbatim>\<open>name in container\<close> for a string \<open>name\<close>: an element of a list, a key of a dict, a
  substring of a string; any other container raises.\<close>

definition str_in :: "host \<Rightarrow> string \<Rightarrow> pyval \<Rightarrow> exn + bool" where
  "str_in h name container =
     (case container of
        VList xs \<Rightarrow> Inr (list_ex (\<lambda>y. as_str h y = Some name) xs)
      | VDict kvs \<Rightarrow> Inr (map_of kvs name \<noteq> None)
      | VStr t \<Rightarrow> Inr (contains name t)
      | VTime t \<Rightarrow> Inr (contains name (isoformat h t))
      | _ \<Rightarrow> Inl (Exn TypeError
                 (''argument of type '' @ squote @ type_name container @ squote @ '' is not iterable'')))"

text \<open>\<^verbatim>\<open>sep.join(parts)\<close> and \<^verbatim>\<open>s.lower()\<close> (on the letters A to Z, which is all the
  comparison with \<^verbatim>\<open>"true"\<close> can see).\<close>

fun join :: "string \<Rightarrow> string list \<Rightarrow> string" where
  "join sep [] = []"
| "join sep [x] = x"
| "join sep (x # y # ys) = x @ sep @ join sep (y # ys)"

definition lower :: "string \<Rightarrow> string" where
  "lower s = map (\<lambda>c. if 65 \<le> (of_char c :: nat) \<and> (of_char c :: nat) \<le> 90 then char_of (of_char c + 32 :: nat) else c) s"

text \<open>The dict that \<^verbatim>\<open>_execute_restart_command\<close> and \<^verbatim>\<open>_simulate_restart_command\<close> return:
  always the same four keys, \<^verbatim>\<open>success\<close>, \<^verbatim>\<open>error\<close>, \<^verbatim>\<open>command\<close> and \<^verbatim>\<open>output\<close>.\<close>

record command_result =
  cr_success :: bool
  cr_error :: string
  cr_command :: string
  cr_output :: string

text \<open>\<^verbatim>\<open>ServiceRestartPlugin._simulate_restart_command\<close> (the one second of sleep is not
  modelled).\<close>

definition simulate_restart_command :: "string list \<Rightarrow> string \<Rightarrow> command_result" where
  "simulate_restart_command cmd service_name =
     (if service_name \<in> set [''nginx'', ''apache2'', ''mysql'', ''postgresql'', ''redis'', ''docker'']
      then \<lparr>cr_success = True, cr_error = [], cr_command = join '' '' cmd,
            cr_output = ''Service '' @ service_name @ '' restarted successfully (simulated)''\<rparr>
      else \<lparr>cr_success = False, cr_error = ''Service '' @ service_name @ '' not found (simulated)'',
            cr_command = join '' '' cmd, cr_output = []\<rparr>)"

text \<open>\<^verbatim>\<open>ServiceRestartPlugin._execute_restart_command\<close>: the command for the method, then the
  simulation unless \<^verbatim>\<open>STAVILY_DEMO_MODE\<close> says otherwise, else the real run, whose errors
  are all caught.\<close>

definition restart_cmd :: "host \<Rightarrow> pyval \<Rightarrow> string \<Rightarrow> string list option" where
  "restart_cmd h method service_name =
     (if as_str h method = Some ''systemctl'' then Some [''systemctl'', ''restart'', service_name]
      else if as_str h method = Some ''service'' then Some [''service'', service_name, ''restart'']
      else if as_str h method = Some ''docker'' then Some [''docker'', ''restart'', service_name]
      else None)"

definition execute_restart_command ::
    "host \<Rightarrow> string \<Rightarrow> pyval \<Rightarrow> nat \<Rightarrow> command_result \<times> nat" where
  "execute_restart_command h service_name method w =
     (case restart_cmd h method service_name of
        None \<Rightarrow>
          (\<lparr>cr_success = False, cr_error = ''Unsupported method: '' @ py_str h method, cr_command = [], cr_output = []\<rparr>, w)
      | Some cmd \<Rightarrow>
          if lower (case getenv h ''STAVILY_DEMO_MODE'' of None \<Rightarrow> ''true'' | Some v \<Rightarrow> v) = ''true''
          then (simulate_restart_command cmd service_name, w)
          else
            (case run_proc h w cmd of
               Inr (rc, out, err) \<Rightarrow>
                 (\<lparr>cr_success = (rc = 0), cr_error = (if rc \<noteq> 0 then err else []),
                   cr_command = join '' '' cmd, cr_output = out\<rparr>, Suc w)
             | Inl (Exn c m) \<Rightarrow>
                 (\<lparr>cr_success = False, cr_error = (if c = TimeoutExpired then ''Command timed out'' else m),
                   cr_command = join '' '' cmd, cr_output = []\<rparr>, Suc w)))"

text \<open>\<^verbatim>\<open>ServiceRestartPlugin._create_error_result\<close>: without a given start time the clock is
  read for it; then the clock is read once for \<^verbatim>\<open>completed_at\<close> and once more for the
  duration.\<close>

definition create_error_result ::
    "host \<Rightarrow> pyval \<Rightarrow> string \<Rightarrow> int option \<Rightarrow> nat \<Rightarrow> pyval \<times> nat" where
  "create_error_result h action_id err started w =
     (let (st, w1) = (case started of None \<Rightarrow> (clock h w, Suc w) | Some t \<Rightarrow> (t, w))
      in (VDict
            [(''id'', action_id),
             (''status'', VStr ''failed''),
             (''error'', VStr err),
             (''started_at'', VTime st),
             (''completed_at'', VTime (clock h w1)),
             (''duration'', total_seconds (clock h (Suc w1) - st)),
             (''metadata'',
                VDict [(''plugin_id'', VStr ''service-restart''), (''plugin_version'', VStr ''1.0.0'')])],
          Suc (Suc w1)))"

text \<open>How the \<^verbatim>\<open>try\<close> block of \<^verbatim>\<open>execute_action\<close> ends: with a \<^verbatim>\<open>return\<close> of an error
  result, by falling through with \<^verbatim>\<open>result\<close> updated, or with an exception.\<close>

datatype step_outcome = Returned pyval | Updated "(string \<times> pyval) list" | Raised exn

text \<open>The \<^verbatim>\<open>try\<close> block of \<^verbatim>\<open>ServiceRestartPlugin.execute_action\<close>. A \<^verbatim>\<open>service_name\<close> that is
  not a string makes \<^verbatim>\<open>re.match\<close> raise inside \<^verbatim>\<open>_is_valid_service_name\<close>.\<close>

definition restart_steps ::
    "host \<Rightarrow> service_restart \<Rightarrow> pyval \<Rightarrow> pyval \<Rightarrow> int \<Rightarrow> (string \<times> pyval) list \<Rightarrow> nat
       \<Rightarrow> step_outcome \<times> nat" where
  "restart_steps h s action_id parameters started result w =
     (case py_get parameters ''service_name'' VNone of
        Inl e \<Rightarrow> (Raised e, w)
      | Inr service_name \<Rightarrow>
        if \<not> truthy service_name then
          (case create_error_result h action_id ''service_name parameter is required'' (Some started) w of
             (r, w') \<Rightarrow> (Returned r, w'))
        else
          case as_str h service_name of
            None \<Rightarrow>
              (Raised (Exn TypeError
                 (''expected string or bytes-like object, got '' @ squote @ type_name service_name @ squote)), w)
          | Some name \<Rightarrow>
            if \<not> is_valid_service_name name then
              (case create_error_result h action_id (''Invalid service name: '' @ name) (Some started) w of
                 (r, w') \<Rightarrow> (Returned r, w'))
            else
              case (if truthy (allowed_services s)
                    then (case str_in h name (allowed_services s) of
                            Inl e \<Rightarrow> Inl e
                          | Inr found \<Rightarrow> Inr (\<not> found))
                    else Inr False) of
                Inl e \<Rightarrow> (Raised e, w)
              | Inr refused \<Rightarrow>
                if refused then
                  (case create_error_result h action_id
                          (''Service '' @ squote @ name @ squote @ '' is not in allowed list'')
                          (Some started) w of
                     (r, w') \<Rightarrow> (Returned r, w'))
                else
                  case py_get parameters ''method'' (service_manager s) of
                    Inl e \<Rightarrow> (Raised e, w)
                  | Inr method \<Rightarrow>
                    if \<not> is_manager h method then
                      (case create_error_result h action_id (''Unsupported method: '' @ py_str h method)
                              (Some started) w of
                         (r, w') \<Rightarrow> (Returned r, w'))
                    else
                      case execute_restart_command h name method w of
                        (command_result, w') \<Rightarrow>
                          if cr_success command_result then
                            (Updated
                               (dict_update result
                                  [(''status'', VStr ''completed''),
                                   (''data'',
                                      VDict
                                        [(''service_name'', service_name),
                                         (''method'', method),
                                         (''command'', VStr (cr_command command_result)),
                                         (''output'', VStr (cr_output command_result)),
                                         (''success'', VBool True)])]),
                             w')
                          else
                            (Updated
                               (dict_update result
                                  [(''status'', VStr ''failed''),
                                   (''error'', VStr (cr_error command_result)),
                                   (''data'',
                                      VDict
                                        [(''service_name'', service_name),
                                         (''method'', method),
                                         (''command'', VStr (cr_command command_result)),
                                         (''output'', VStr (cr_output command_result))])]),
                             w'))"

text \<open>The last statement of \<^verbatim>\<open>execute_action\<close>: the clock is read once for
  \<^verbatim>\<open>completed_at\<close> and once more for the duration.\<close>

definition finalize :: "host \<Rightarrow> int \<Rightarrow> (string \<times> pyval) list \<Rightarrow> nat \<Rightarrow> pyval \<times> nat" where
  "finalize h started result w =
     (VDict
        (dict_update result
           [(''completed_at'', VTime (clock h w)),
            (''duration'', total_seconds (clock h (Suc w) - started))]),
      Suc (Suc w))"

text \<open>\<^verbatim>\<open>ServiceRestartPlugin.execute_action\<close>. The two reads \<^verbatim>\<open>action_request["id"]\<close> are
  outside the \<^verbatim>\<open>try\<close> block, so their errors leave the method.\<close>

definition execute_action ::
    "host \<Rightarrow> pyval \<Rightarrow> service_restart \<Rightarrow> nat \<Rightarrow> (exn + pyval) \<times> nat" where
  "execute_action h action_request s w =
     (if \<not> running s then
        (case py_getitem action_request ''id'' of
           Inl e \<Rightarrow> (Inl e, w)
         | Inr action_id \<Rightarrow>
             (case create_error_result h action_id ''Plugin is not running'' None w of
                (r, w') \<Rightarrow> (Inr r, w')))
      else
        (let started = clock h w in
         case py_getitem action_request ''id'' of
           Inl e \<Rightarrow> (Inl e, Suc w)
         | Inr action_id \<Rightarrow>
             (case py_get action_request ''parameters'' (VDict []) of
                Inl e \<Rightarrow> (Inl e, Suc w)
              | Inr parameters \<Rightarrow>
                  (let result =
                         [(''id'', action_id),
                          (''status'', VStr ''running''),
                          (''started_at'', VTime started),
                          (''metadata'',
                             VDict
                               [(''plugin_id'', VStr ''service-restart''),
                                (''plugin_version'', VStr ''1.0.0''),
                                (''execution_host'', VStr (nodename h))])]
                   in case restart_steps h s action_id parameters started result (Suc w) of
                        (Returned r, w') \<Rightarrow> (Inr r, w')
                      | (Updated result', w') \<Rightarrow>
                          (case finalize h started result' w' of (r, w'') \<Rightarrow> (Inr r, w''))
                      | (Raised e, w') \<Rightarrow>
                          (case finalize h started
                                  (dict_update result
                                     [(''status'', VStr ''failed''), (''error'', VStr (str_exn e))])
                                  w' of
                             (r, w'') \<Rightarrow> (Inr r, w''))))))"

text \<open>\<^verbatim>\<open>ServiceRestartPlugin.get_action_config\<close>.\<close>

definition get_action_config :: pyval where
  "get_action_config =
     VDict
       [(''schema'',
           VDict
             [(''service_name'',
                 VDict
                   [(''type'', VStr ''string''),
                    (''description'', VStr ''Name of the service to restart''),
                    (''required'', VBool True),
                    (''min_length'', VInt 1),
                    (''max_length'', VInt 100),
                    (''examples'', VList [VStr ''nginx'', VStr ''apache2'', VStr ''mysql'', VStr ''postgresql''])]),
              (''method'',
                 VDict
                   [(''type'', VStr ''string''),
                    (''description'', VStr ''Method to use for restarting the service''),
                    (''default'', VStr ''systemctl''),
                    (''required'', VBool False),
                    (''enum'', VList [VStr ''systemctl'', VStr ''service'', VStr ''docker'']),
                    (''examples'', VList [VStr ''systemctl'', VStr ''service'', VStr ''docker''])]),
              (''wait_for_status'',
                 VDict
                   [(''type'', VStr ''boolean''),
                    (''description'', VStr ''Wait for service to be active after restart''),
                    (''default'', VBool True),
                    (''required'', VBool False)]),
              (''timeout'',
                 VDict
                   [(''type'', VStr ''integer''),
                    (''description'', VStr ''Timeout in seconds for the restart operation''),
                    (''default'', VInt 30),
                    (''minimum'', VInt 5),
                    (''maximum'', VInt 300)])]),
        (''required'', VList [VStr ''service_name'']),
        (''examples'',
           VList
             [VDict
                [(''service_name'', VStr ''nginx''), (''method'', VStr ''systemctl''),
                 (''wait_for_status'', VBool True)],
              VDict
                [(''service_name'', VStr ''web-app''), (''method'', VStr ''docker''),
                 (''timeout'', VInt 60)]]),
        (''description'', VStr ''Service restart configuration''),
        (''timeout'', VInt 300)]"

section \<open>The dispatch loop (\<^verbatim>\<open>main\<close>)\<close>

text \<open>
  Both files end in the same loop; only the branches on \<^verbatim>\<open>action\<close> differ, so the loop is
  written once, over the function that handles one decoded command. Standard input is the
  list of lines still to be read (\<^verbatim>\<open>readline\<close> returns the empty string once it is
  exhausted); standard output is the list of responses handed to
  \<^verbatim>\<open>print(json.dumps(response))\<close>, in order.
\<close>

text \<open>\<^verbatim>\<open>str.isspace\<close> on a code point below 256, and \<^verbatim>\<open>str.strip()\<close>.\<close>

definition is_space :: "char \<Rightarrow> bool" where
  "is_space c =
     (let n = (of_char c :: nat)
      in (9 \<le> n \<and> n \<le> 13) \<or> (28 \<le> n \<and> n \<le> 32) \<or> n = 133 \<or> n = 160)"

definition strip :: "string \<Rightarrow> string" where
  "strip s = rev (dropWhile is_space (rev (dropWhile is_space s)))"

text \<open>The body of the loop after a non-blank line was read: decode it, handle the command,
  and turn an exception that left the handler into the \<^verbatim>\<open>Plugin error\<close> response of the
  outer \<^verbatim>\<open>except\<close>. One line gives one response.\<close>

definition run_command ::
    "host \<Rightarrow> (pyval \<Rightarrow> 's \<Rightarrow> nat \<Rightarrow> (exn + pyval) \<times> 's \<times> nat) \<Rightarrow> string \<Rightarrow> 's \<Rightarrow> nat
       \<Rightarrow> pyval \<times> 's \<times> nat" where
  "run_command h dispatch line s w =
     (case json_loads h line of
        None \<Rightarrow> (VDict [(''error'', VStr ''Invalid JSON command'')], s, w)
      | Some command \<Rightarrow>
          (case dispatch command s w of
             (Inl e, s', w') \<Rightarrow> (VDict [(''error'', VStr (''Plugin error: '' @ str_exn e))], s', w')
           | (Inr response, s', w') \<Rightarrow> (response, s', w')))"

text \<open>\<^verbatim>\<open>while True\<close>: the responses printed, the final plugin state and counter.\<close>

fun main_loop ::
    "host \<Rightarrow> (pyval \<Rightarrow> 's \<Rightarrow> nat \<Rightarrow> (exn + pyval) \<times> 's \<times> nat) \<Rightarrow> string list \<Rightarrow> 's \<Rightarrow> nat
       \<Rightarrow> pyval list \<times> 's \<times> nat" where
  "main_loop h dispatch [] s w = ([], s, w)"
| "main_loop h dispatch (raw # rest) s w =
     (let line = strip raw in
      if line = [] then ([], s, w)
      else
        case run_command h dispatch line s w of
          (response, s', w') \<Rightarrow>
            (case main_loop h dispatch rest s' w' of
               (printed, s'', w'') \<Rightarrow> (response # printed, s'', w'')))"

text \<open>The branches of \<^verbatim>\<open>main\<close> in \<^verbatim>\<open>cpu_monitor.py\<close>.\<close>

definition cpu_dispatch ::
    "host \<Rightarrow> pyval \<Rightarrow> cpu_monitor \<Rightarrow> nat \<Rightarrow> (exn + pyval) \<times> cpu_monitor \<times> nat" where
  "cpu_dispatch h command s w =
     (case py_get command ''action'' VNone of
        Inl e \<Rightarrow> (Inl e, s, w)
      | Inr action \<Rightarrow>
        (let response = [(''action'', action), (''success'', VBool False)] in
         if as_str h action = Some ''get_info'' then
           (case cpu_get_info h w of
              (info, w') \<Rightarrow>
                (Inr (VDict (dict_set (dict_set response ''data'' info) ''success'' (VBool True))), s, w'))
         else if as_str h action = Some ''initialize'' then
           (case py_get command ''config'' (VDict []) of
              Inl e \<Rightarrow> (Inl e, s, w)
            | Inr cfg \<Rightarrow>
                (case cpu_initialize h cfg s of
                   (ok, s') \<Rightarrow> (Inr (VDict (dict_set response ''success'' (VBool ok))), s', w)))
         else if as_str h action = Some ''start'' then
           (case start h s w of
              (ok, s', w') \<Rightarrow> (Inr (VDict (dict_set response ''success'' (VBool ok))), s', w'))
         else if as_str h action = Some ''stop'' then
           (case stop s of
              (ok, s') \<Rightarrow> (Inr (VDict (dict_set response ''success'' (VBool ok))), s', w))
         else if as_str h action = Some ''get_status'' then
           (Inr (VDict (dict_set (dict_set response ''data'' (VStr (get_status s))) ''success'' (VBool True))),
            s, w)
         else if as_str h action = Some ''get_health'' then
           (case cpu_get_health h s w of
              (Inl e, w') \<Rightarrow> (Inl e, s, w')
            | (Inr health, w') \<Rightarrow>
                (Inr (VDict (dict_set (dict_set response ''data'' health) ''success'' (VBool True))), s, w'))
         else if as_str h action = Some ''detect_triggers'' then
           (case detect_triggers h s w of
              (trigger_event, w') \<Rightarrow>
                (Inr (VDict (dict_set (dict_set response ''data'' trigger_event) ''success'' (VBool True))),
                 s, w'))
         else if as_str h action = Some ''get_trigger_config'' then
           (Inr (VDict (dict_set (dict_set response ''data'' get_trigger_config) ''success'' (VBool True))),
            s, w)
         else
           (Inr (VDict (dict_set response ''error'' (VStr (''Unknown action: '' @ py_str h action)))), s, w)))"

text \<open>The branches of \<^verbatim>\<open>main\<close> in \<^verbatim>\<open>service_restart.py\<close>.\<close>

definition svc_dispatch ::
    "host \<Rightarrow> pyval \<Rightarrow> service_restart \<Rightarrow> nat \<Rightarrow> (exn + pyval) \<times> service_restart \<times> nat" where
  "svc_dispatch h command s w =
     (case py_get command ''action'' VNone of
        Inl e \<Rightarrow> (Inl e, s, w)
      | Inr action \<Rightarrow>
        (let response = [(''action'', action), (''success'', VBool False)] in
         if as_str h action = Some ''get_info'' then
           (case svc_get_info h w of
              (info, w') \<Rightarrow>
                (Inr (VDict (dict_set (dict_set response ''data'' info) ''success'' (VBool True))), s, w'))
         else if as_str h action = Some ''initialize'' then
           (case py_get command ''config'' (VDict []) of
              Inl e \<Rightarrow> (Inl e, s, w)
            | Inr cfg \<Rightarrow>
                (case svc_initialize h cfg s w of
                   ((ok, s'), w') \<Rightarrow> (Inr (VDict (dict_set response ''success'' (VBool ok))), s', w')))
         else if as_str h action = Some ''start'' then
           (case start h s w of
              (ok, s', w') \<Rightarrow> (Inr (VDict (dict_set response ''success'' (VBool ok))), s', w'))
         else if as_str h action = Some ''stop'' then
           (case stop s of
              (ok, s') \<Rightarrow> (Inr (VDict (dict_set response ''success'' (VBool ok))), s', w))
         else if as_str h action = Some ''get_status'' then
           (Inr (VDict (dict_set (dict_set response ''data'' (VStr (get_status s))) ''success'' (VBool True))),
            s, w)
         else if as_str h action = Some ''get_health'' then
           (case svc_get_health h s w of
              (Inl e, w') \<Rightarrow> (Inl e, s, w')
            | (Inr health, w') \<Rightarrow>
                (Inr (VDict (dict_set (dict_set response ''data'' health) ''success'' (VBool True))), s, w'))
         else if as_str h action = Some ''execute_action'' then
           (case py_get command ''action_request'' (VDict []) of
              Inl e \<Rightarrow> (Inl e, s, w)
            | Inr action_request \<Rightarrow>
                (case execute_action h action_request s w of
                   (Inl e, w') \<Rightarrow> (Inl e, s, w')
                 | (Inr action_result, w') \<Rightarrow>
                     (Inr (VDict (dict_set (dict_set response ''data'' action_result) ''success'' (VBool True))),
                      s, w')))
         else if as_str h action = Some ''get_action_config'' then
           (Inr (VDict (dict_set (dict_set response ''data'' get_action_config) ''success'' (VBool True))),
            s, w)
         else
           (Inr (VDict (dict_set response ''error'' (VStr (''Unknown action: '' @ py_str h action)))), s, w)))"

text \<open>\<^verbatim>\<open>main()\<close> of each file: a fresh plugin, then the loop.\<close>

definition cpu_main :: "host \<Rightarrow> string list \<Rightarrow> pyval list \<times> cpu_monitor \<times> nat" where
  "cpu_main h stdin = main_loop h (cpu_dispatch h) stdin cpu_new 0"

definition svc_main :: "host \<Rightarrow> string list \<Rightarrow> pyval list \<times> service_restart \<times> nat" where
  "svc_main h stdin = main_loop h (svc_dispatch h) stdin svc_new 0"

section \<open>Concrete inputs and the published bounds\<close>

text \<open>A concrete host, for evaluating the model at concrete inputs: the clock advances by
  a millisecond per reading and every CPU sample is 95 percent.\<close>

definition demo_host :: host where
  "demo_host = \<lparr>clock = (\<lambda>n. 1000 * int n), epoch_seconds = (\<lambda>n. 1700000000 + int n),
     cpu_percent = (\<lambda>n. Inr (Fin 95)), getloadavg = None,
     run_proc = (\<lambda>n cmd. Inr (0, [], [])), cpu_count = VInt 4, nodename = ''host-1'',
     getenv = (\<lambda>k. None), parse_float = (\<lambda>s. None), parse_int = (\<lambda>s. None),
     json_loads = (\<lambda>s. None), py_repr = (\<lambda>v. ''?''), isoformat = (\<lambda>t. ''T'' @ str_int t)\<rparr>"

text \<open>The bounds that \<^verbatim>\<open>get_trigger_config\<close> publishes for the configuration, in the
  schema's words: \<open>threshold\<close> is a number from 0 to 100, both included, \<open>interval\<close> an
  integer of at least 1. \<open>out_of_bounds\<close> holds of a configuration with a numeric
  threshold outside the range or a numeric interval below 1, \<open>within_bounds\<close> of one
  whose given options are of the declared type and within the bounds.\<close>

definition json_number :: "pyval \<Rightarrow> pyfloat option" where
  "json_number v = (case v of VInt n \<Rightarrow> Some (Fin (real_of_int n)) | VFloat f \<Rightarrow> Some f | _ \<Rightarrow> None)"

definition out_of_bounds :: "pyval \<Rightarrow> bool" where
  "out_of_bounds cfg =
     (case cfg of
        VDict kvs \<Rightarrow>
          (case map_of kvs ''threshold'' of
             Some v \<Rightarrow> (case json_number v of Some x \<Rightarrow> \<not> (fle (Fin 0) x \<and> fle x (Fin 100)) | None \<Rightarrow> False)
           | None \<Rightarrow> False)
          \<or> (case map_of kvs ''interval'' of
             Some v \<Rightarrow> (case json_number v of Some x \<Rightarrow> flt x (Fin 1) | None \<Rightarrow> False)
           | None \<Rightarrow> False)
      | _ \<Rightarrow> False)"

definition within_bounds :: "pyval \<Rightarrow> bool" where
  "within_bounds cfg =
     (case cfg of
        VDict kvs \<Rightarrow>
          (case map_of kvs ''threshold'' of
             Some v \<Rightarrow> (case json_number v of Some x \<Rightarrow> fle (Fin 0) x \<and> fle x (Fin 100) | None \<Rightarrow> False)
           | None \<Rightarrow> True)
          \<and> (case map_of kvs ''interval'' of
             Some v \<Rightarrow> (case v of VInt i \<Rightarrow> 1 \<le> i | _ \<Rightarrow> False)
           | None \<Rightarrow> True)
      | _ \<Rightarrow> False)"

text \<open>Reading a key of a returned dict, and of the result of a method that may raise.\<close>

definition field :: "string \<Rightarrow> pyval \<Rightarrow> pyval option" where
  "field k v = (case v of VDict kvs \<Rightarrow> map_of kvs k | _ \<Rightarrow> None)"

definition reply_field :: "string \<Rightarrow> exn + pyval \<Rightarrow> pyval option" where
  "reply_field k r = (case r of Inr v \<Rightarrow> field k v | Inl e \<Rightarrow> None)"

text \<open>The plugin instances: the states that a fresh object reaches through any sequence of
  calls of the lifecycle methods, from a given value of the counter.\<close>

datatype call = Initialize pyval | Start | Stop

fun cpu_calls :: "host \<Rightarrow> call list \<Rightarrow> cpu_monitor \<Rightarrow> nat \<Rightarrow> cpu_monitor \<times> nat" where
  "cpu_calls h [] s w = (s, w)"
| "cpu_calls h (Initialize cfg # cs) s w = cpu_calls h cs (snd (cpu_initialize h cfg s)) w"
| "cpu_calls h (Start # cs) s w = cpu_calls h cs (fst (snd (start h s w))) (snd (snd (start h s w)))"
| "cpu_calls h (Stop # cs) s w = cpu_calls h cs (snd (stop s)) w"

fun svc_calls :: "host \<Rightarrow> call list \<Rightarrow> service_restart \<Rightarrow> nat \<Rightarrow> service_restart \<times> nat" where
  "svc_calls h [] s w = (s, w)"
| "svc_calls h (Initialize cfg # cs) s w =
     svc_calls h cs (snd (fst (svc_initialize h cfg s w))) (snd (svc_initialize h cfg s w))"
| "svc_calls h (Start # cs) s w = svc_calls h cs (fst (snd (start h s w))) (snd (snd (start h s w)))"
| "svc_calls h (Stop # cs) s w = svc_calls h cs (snd (stop s)) w"

text \<open>Three concrete instances: started and stopped again; started and then initialized
  again (with the empty configuration) while running.\<close>

definition cpu_stopped_again :: cpu_monitor where
  "cpu_stopped_again = snd (stop (fst (snd (start demo_host cpu_new 0))))"

definition cpu_reinitialized :: cpu_monitor where
  "cpu_reinitialized = snd (cpu_initialize demo_host (VDict []) (fst (snd (start demo_host cpu_new 0))))"

definition svc_stopped_again :: service_restart where
  "svc_stopped_again = snd (stop (fst (snd (start demo_host svc_new 0))))"

text \<open>Command lines for the concrete runs below, and the decoder of the concrete host:
  it decodes these lines as \<^verbatim>\<open>json.loads\<close> does and takes any other line as malformed.\<close>

definition dquote :: string where
  "dquote = [CHR 0x22]"

definition action_line :: "string \<Rightarrow> string" where
  "action_line a = ''{'' @ dquote @ ''action'' @ dquote @ '': '' @ dquote @ a @ dquote @ ''}''"

definition demo_loads :: "string \<Rightarrow> pyval option" where
  "demo_loads line =
     (if line = action_line ''foo'' then Some (VDict [(''action'', VStr ''foo'')])
      else if line = action_line ''start'' then Some (VDict [(''action'', VStr ''start'')])
      else if line = action_line ''get_status'' then Some (VDict [(''action'', VStr ''get_status'')])
      else if line = action_line ''execute_action'' then Some (VDict [(''action'', VStr ''execute_action'')])
      else None)"

definition loop_host :: host where
  "loop_host = demo_host\<lparr>json_loads := demo_loads\<rparr>"

text \<open>The values of \<^verbatim>\<open>action\<close> that each \<^verbatim>\<open>main\<close> has a branch for.\<close>

definition cpu_actions :: "string list" where
  "cpu_actions =
     [''get_info'', ''initialize'', ''start'', ''stop'', ''get_status'', ''get_health'',
      ''detect_triggers'', ''get_trigger_config'']"

definition svc_actions :: "string list" where
  "svc_actions =
     [''get_info'', ''initialize'', ''start'', ''stop'', ''get_status'', ''get_health'',
      ''execute_action'', ''get_action_config'']"

text \<open>A running service restart plugin: a fresh one, started.\<close>

definition svc_running :: service_restart where
  "svc_running = fst (snd (start demo_host svc_new 0))"

text \<open>Two results of \<^verbatim>\<open>execute_action\<close> on the concrete host, whose clock advances by 1000
  microseconds per reading: the restart of \<^verbatim>\<open>nginx\<close> completed by a running plugin from
  reading 1 on, and the refusal of a plugin that is not running from reading 0 on.\<close>

definition nginx_request :: pyval where
  "nginx_request = VDict [(''id'', VStr ''a1''), (''parameters'', VDict [(''service_name'', VStr ''nginx'')])]"

definition completed_result :: pyval where
  "completed_result =
     VDict
       [(''id'', VStr ''a1''),
        (''status'', VStr ''completed''),
        (''started_at'', VTime 1000),
        (''metadata'',
           VDict
             [(''plugin_id'', VStr ''service-restart''),
              (''plugin_version'', VStr ''1.0.0''),
              (''execution_host'', VStr ''host-1'')]),
        (''data'',
           VDict
             [(''service_name'', VStr ''nginx''),
              (''method'', VStr ''systemctl''),
              (''command'', VStr ''systemctl restart nginx''),
              (''output'', VStr ''Service nginx restarted successfully (simulated)''),
              (''success'', VBool True)]),
        (''completed_at'', VTime 2000),
        (''duration'', total_seconds 2000)]"

definition refused_result :: pyval where
  "refused_result =
     VDict
       [(''id'', VStr ''a1''),
        (''status'', VStr ''failed''),
        (''error'', VStr ''Plugin is not running''),
        (''started_at'', VTime 0),
        (''completed_at'', VTime 1000),
        (''duration'', total_seconds 2000),
        (''metadata'',
           VDict [(''plugin_id'', VStr ''service-restart''), (''plugin_version'', VStr ''1.0.0'')])]"

text \<open>The consistency that the specification asks of the timing of a result: the three
  fields are there, and the duration differs from \<^verbatim>\<open>completed_at\<close> minus \<^verbatim>\<open>started_at\<close> by
  at most the tolerance \<open>eps\<close>, in microseconds.\<close>

definition timing_consistent :: "int \<Rightarrow> pyval \<Rightarrow> bool" where
  "timing_consistent eps r =
     (case (field ''started_at'' r, field ''completed_at'' r, field ''duration'' r) of
        (Some (VTime st), Some (VTime ct), Some (VFloat (Fin d))) \<Rightarrow>
          \<bar>d * 1000000 - real_of_int (ct - st)\<bar> \<le> real_of_int eps
      | _ \<Rightarrow> False)"

text \<open>A host whose clock steps by 1000 microseconds per reading, as the concrete host's
  does, and is set forward by one hour between the readings 2 and 3 (\<^verbatim>\<open>datetime.now()\<close> is
  the local wall clock); and the two results of \<^verbatim>\<open>execute_action\<close> on it from reading 1
  on, of a running plugin and of one that is not running.\<close>

definition jump_host :: host where
  "jump_host = demo_host\<lparr>clock := (\<lambda>n. if 3 \<le> n then 3600000000 + 1000 * int n else 1000 * int n)\<rparr>"

definition jump_completed :: pyval where
  "jump_completed =
     VDict
       [(''id'', VStr ''a1''),
        (''status'', VStr ''completed''),
        (''started_at'', VTime 1000),
        (''metadata'',
           VDict
             [(''plugin_id'', VStr ''service-restart''),
              (''plugin_version'', VStr ''1.0.0''),
              (''execution_host'', VStr ''host-1'')]),
        (''data'',
           VDict
             [(''service_name'', VStr ''nginx''),
              (''method'', VStr ''systemctl''),
              (''command'', VStr ''systemctl restart nginx''),
              (''output'', VStr ''Service nginx restarted successfully (simulated)''),
              (''success'', VBool True)]),
        (''completed_at'', VTime 2000),
        (''duration'', total_seconds 3600002000)]"

definition jump_refused :: pyval where
  "jump_refused =
     VDict
       [(''id'', VStr ''a1''),
        (''status'', VStr ''failed''),
        (''error'', VStr ''Plugin is not running''),
        (''started_at'', VTime 1000),
        (''completed_at'', VTime 2000),
        (''duration'', total_seconds 3600002000),
        (''metadata'',
           VDict [(''plugin_id'', VStr ''service-restart''), (''plugin_version'', VStr ''1.0.0'')])]"

section \<open>Verified properties\<close>

subsection \<open>Configuration bounds\<close>

lemma double_range: "(100::int) < 2 ^ 1024 - 2 ^ 970"
  by simp


lemma init_failed_result: "fst (init_failed s) = False \<and> get_status (snd (init_failed s)) = ''error''"
  by (simp add: init_failed_def get_status_def)

lemma initialize_outcome:
  "(fst (cpu_initialize h cfg s) = False \<and> get_status (snd (cpu_initialize h cfg s)) = ''error'')
   \<or> (fst (cpu_initialize h cfg s) = True \<and> get_status (snd (cpu_initialize h cfg s)) = ''initialized'')"
  by (simp add: cpu_initialize_def Let_def init_failed_def get_status_def split: sum.splits)

lemma py_float_number:
  "json_number v = Some x \<Longrightarrow> py_float h v = Inr t \<Longrightarrow> t = x"
  by (auto simp: json_number_def py_float_def split: pyval.splits if_splits)

lemma py_int_below_one:
  assumes "json_number v = Some x" "flt x (Fin 1)" "py_int h v = Inr i"
  shows "i < 1"
proof (cases v)
  case (VFloat f)
  with assms show ?thesis
    by (cases f) (auto simp: json_number_def py_int_def floor_less_iff ceiling_less_iff split: if_splits)
qed (use assms in \<open>auto simp: json_number_def py_int_def\<close>)

lemma threshold_rejected:
  assumes "map_of kvs ''threshold'' = Some v" "json_number v = Some x"
    "\<not> (fle (Fin 0) x \<and> fle x (Fin 100))"
  shows "fst (cpu_initialize h (VDict kvs) s) = False"
  using assms py_float_number[OF assms(2), of h]
  by (auto simp: cpu_initialize_def Let_def init_failed_def py_get_def split: sum.splits)

lemma interval_rejected:
  assumes "map_of kvs ''interval'' = Some v" "json_number v = Some x" "flt x (Fin 1)"
  shows "fst (cpu_initialize h (VDict kvs) s) = False"
  using assms py_int_below_one[OF assms(2,3), of h]
  by (auto simp: cpu_initialize_def Let_def init_failed_def py_get_def split: sum.splits)

lemma py_float_in_range:
  "json_number v = Some x \<Longrightarrow> fle (Fin 0) x \<Longrightarrow> fle x (Fin 100) \<Longrightarrow> py_float h v = Inr x"
  using double_range
  by (auto simp: json_number_def py_float_def split: pyval.splits)

lemma py_float_default: "py_float h (VFloat (Fin 80)) = Inr (Fin 80)"
  by (simp add: py_float_def)

lemma accepted:
  assumes "within_bounds cfg"
  shows "fst (cpu_initialize h cfg s) = True"
proof -
  obtain kvs where cfg: "cfg = VDict kvs"
    using assms by (cases cfg) (auto simp: within_bounds_def)
  have t: "\<exists>t. py_float h (case map_of kvs ''threshold'' of None \<Rightarrow> VFloat (Fin 80) | Some v \<Rightarrow> v) = Inr t
     \<and> fle (Fin 0) t \<and> fle t (Fin 100)"
    using assms cfg
    by (auto simp: within_bounds_def py_float_in_range py_float_default split: option.splits)
  have i: "\<exists>i. py_int h (case map_of kvs ''interval'' of None \<Rightarrow> VInt 30 | Some v \<Rightarrow> v) = Inr i \<and> 1 \<le> i"
    using assms cfg
    by (auto simp: within_bounds_def py_int_def split: option.splits pyval.splits)
  from t i show ?thesis
    by (auto simp: cfg cpu_initialize_def Let_def py_get_def)
qed

text \<open>
  Claim C4. A configuration that fails the CPU monitor's schema bounds (a threshold
  outside the inclusive range from 0 to 100, or an interval below 1) makes
  \<^verbatim>\<open>initialize\<close> return failure, and \<^verbatim>\<open>get_status\<close> then returns \<^verbatim>\<open>"error"\<close>; the bounds are
  inclusive, so a configuration within them, such as a threshold of exactly 0 or 100,
  is accepted and leaves the state \<^verbatim>\<open>"initialized"\<close>.
\<close>

theorem initialize_validates_config:
  "(out_of_bounds cfg \<longrightarrow>
      fst (cpu_initialize h cfg s) = False \<and> get_status (snd (cpu_initialize h cfg s)) = ''error'')
   \<and> (within_bounds cfg \<longrightarrow>
      fst (cpu_initialize h cfg s) = True \<and> get_status (snd (cpu_initialize h cfg s)) = ''initialized'')"
proof (intro conjI impI)
  assume "out_of_bounds cfg"
  then have "fst (cpu_initialize h cfg s) = False"
    by (cases cfg) (auto simp: out_of_bounds_def threshold_rejected interval_rejected split: option.splits)
  then show "fst (cpu_initialize h cfg s) = False" "get_status (snd (cpu_initialize h cfg s)) = ''error''"
    using initialize_outcome[of h cfg s] by auto
next
  assume "within_bounds cfg"
  then have "fst (cpu_initialize h cfg s) = True" by (rule accepted)
  then show "fst (cpu_initialize h cfg s) = True" "get_status (snd (cpu_initialize h cfg s)) = ''initialized''"
    using initialize_outcome[of h cfg s] by auto
qed


theorem initialize_validates_config_witness:
  "out_of_bounds (VDict [(''threshold'', VFloat (Fin 150)), (''interval'', VInt 30)])
   \<and> fst (cpu_initialize demo_host (VDict [(''threshold'', VFloat (Fin 150)), (''interval'', VInt 30)]) cpu_new) = False
   \<and> get_status (snd (cpu_initialize demo_host (VDict [(''threshold'', VFloat (Fin 150)), (''interval'', VInt 30)]) cpu_new)) = ''error''
   \<and> out_of_bounds (VDict [(''interval'', VInt 0)])
   \<and> fst (cpu_initialize demo_host (VDict [(''interval'', VInt 0)]) cpu_new) = False
   \<and> get_status (snd (cpu_initialize demo_host (VDict [(''interval'', VInt 0)]) cpu_new)) = ''error''
   \<and> within_bounds (VDict [(''threshold'', VInt 100)])
   \<and> fst (cpu_initialize demo_host (VDict [(''threshold'', VInt 100)]) cpu_new) = True
   \<and> get_status (snd (cpu_initialize demo_host (VDict [(''threshold'', VInt 100)]) cpu_new)) = ''initialized''
   \<and> within_bounds (VDict [(''threshold'', VFloat (Fin 0)), (''interval'', VInt 1)])
   \<and> fst (cpu_initialize demo_host (VDict [(''threshold'', VFloat (Fin 0)), (''interval'', VInt 1)]) cpu_new) = True"
  using initialize_validates_config
          [where cfg = "VDict [(''threshold'', VFloat (Fin 150)), (''interval'', VInt 30)]"
             and h = demo_host and s = cpu_new]
        initialize_validates_config
          [where cfg = "VDict [(''interval'', VInt 0)]" and h = demo_host and s = cpu_new]
        initialize_validates_config
          [where cfg = "VDict [(''threshold'', VInt 100)]" and h = demo_host and s = cpu_new]
        initialize_validates_config
          [where cfg = "VDict [(''threshold'', VFloat (Fin 0)), (''interval'', VInt 1)]"
             and h = demo_host and s = cpu_new]
  by (simp add: out_of_bounds_def within_bounds_def json_number_def)

subsection \<open>Trigger detection\<close>





subsection \<open>Concrete instances\<close>

lemma cpu_stopped_again_eq:
  "cpu_stopped_again = \<lparr>config = VDict [], running = False, status = ''stopped'', start_time = Some 0,
      threshold = Fin 80, interval = 30\<rparr>"
  by (simp add: cpu_stopped_again_def stop_def start_def cpu_new_def demo_host_def)

lemma cpu_reinitialized_eq:
  "cpu_reinitialized = \<lparr>config = VDict [], running = True, status = ''initialized'', start_time = Some 0,
      threshold = Fin 80, interval = 30\<rparr>"
  by (simp add: cpu_reinitialized_def cpu_initialize_def start_def cpu_new_def demo_host_def
      py_get_def py_float_def py_int_def)

lemma svc_stopped_again_eq:
  "svc_stopped_again = \<lparr>config = VDict [], running = False, status = ''stopped'', start_time = Some 0,
      allowed_services = VList [], service_manager = VStr ''systemctl''\<rparr>"
  by (simp add: svc_stopped_again_def stop_def start_def svc_new_def demo_host_def)


subsection \<open>Starting twice\<close>

text \<open>
  The claim as it is stated fails for an instance that was initialized again while
  running: \<^verbatim>\<open>initialize\<close> sets the state to \<^verbatim>\<open>"initialized"\<close> and leaves the \<^verbatim>\<open>running\<close>
  flag set, so both calls of \<^verbatim>\<open>start\<close> return at the guard and the state is not
  \<^verbatim>\<open>"running"\<close> after the second.
\<close>

theorem start_twice_counterexample:
  "fst (start demo_host cpu_reinitialized 1) = True
   \<and> fst (start demo_host (fst (snd (start demo_host cpu_reinitialized 1))) 1) = True
   \<and> get_status (fst (snd (start demo_host (fst (snd (start demo_host cpu_reinitialized 1))) 1))) = ''initialized''
   \<and> get_status (fst (snd (start demo_host (fst (snd (start demo_host cpu_reinitialized 1))) 1))) \<noteq> ''running''"
  by (simp add: cpu_reinitialized_eq start_def get_status_def)

text \<open>
  Claim C6, amended. Calling \<^verbatim>\<open>start()\<close> twice in a row is idempotent: both calls return
  success, the second call changes nothing (so \<^verbatim>\<open>start_time\<close> after the second call is
  \<^verbatim>\<open>start_time\<close> after the first), and the plugin is running afterwards. The lifecycle
  state after the second call is \<^verbatim>\<open>"running"\<close> when the plugin was not running before the
  first call; a plugin that was running already keeps the state it had.
\<close>

theorem start_twice_idempotent:
  "fst (start h s w) = True
   \<and> fst (start h (fst (snd (start h s w))) (snd (snd (start h s w)))) = True
   \<and> snd (start h (fst (snd (start h s w))) (snd (snd (start h s w)))) = snd (start h s w)
   \<and> running (fst (snd (start h (fst (snd (start h s w))) (snd (snd (start h s w))))))
   \<and> start_time (fst (snd (start h (fst (snd (start h s w))) (snd (snd (start h s w))))))
       = start_time (fst (snd (start h s w)))
   \<and> (\<not> running s \<longrightarrow>
        get_status (fst (snd (start h (fst (snd (start h s w))) (snd (snd (start h s w)))))) = ''running'')
   \<and> (running s \<longrightarrow>
        get_status (fst (snd (start h (fst (snd (start h s w))) (snd (snd (start h s w)))))) = get_status s)"
  by (simp add: start_def get_status_def)

theorem start_twice_idempotent_witness:
  "\<not> running cpu_new
   \<and> fst (start demo_host cpu_new 0) = True
   \<and> fst (start demo_host (fst (snd (start demo_host cpu_new 0))) (snd (snd (start demo_host cpu_new 0)))) = True
   \<and> get_status (fst (snd (start demo_host (fst (snd (start demo_host cpu_new 0)))
        (snd (snd (start demo_host cpu_new 0)))))) = ''running''
   \<and> start_time (fst (snd (start demo_host (fst (snd (start demo_host cpu_new 0)))
        (snd (snd (start demo_host cpu_new 0)))))) = Some 0
   \<and> running cpu_reinitialized
   \<and> get_status (fst (snd (start demo_host (fst (snd (start demo_host cpu_reinitialized 1)))
        (snd (snd (start demo_host cpu_reinitialized 1)))))) = ''initialized''
   \<and> \<not> running svc_new
   \<and> get_status (fst (snd (start demo_host (fst (snd (start demo_host svc_new 0)))
        (snd (snd (start demo_host svc_new 0)))))) = ''running''"
  using start_twice_idempotent [where h = demo_host and s = cpu_new and w = 0]
        start_twice_idempotent [where h = demo_host and s = cpu_reinitialized and w = 1]
        start_twice_idempotent [where h = demo_host and s = svc_new and w = 0]
  by (simp add: cpu_reinitialized_eq cpu_new_def svc_new_def get_status_def start_def demo_host_def)

subsection \<open>Health reports\<close>

lemma cpu_initialize_frame:
  "running (snd (cpu_initialize h cfg s)) = running s
   \<and> start_time (snd (cpu_initialize h cfg s)) = start_time s
   \<and> status (snd (cpu_initialize h cfg s)) \<noteq> ''running''"
  by (simp add: cpu_initialize_def Let_def init_failed_def split: sum.splits)

lemma svc_initialize_frame:
  "running (snd (fst (svc_initialize h cfg s w))) = running s
   \<and> start_time (snd (fst (svc_initialize h cfg s w))) = start_time s
   \<and> status (snd (fst (svc_initialize h cfg s w))) \<noteq> ''running''"
  by (simp add: svc_initialize_def Let_def init_failed_def split: sum.splits prod.splits)

lemma cpu_lifecycle:
  "(running s \<longrightarrow> start_time s \<noteq> None) \<and> (status s = ''running'' \<longrightarrow> running s) \<Longrightarrow>
   (running (fst (cpu_calls h cs s w)) \<longrightarrow> start_time (fst (cpu_calls h cs s w)) \<noteq> None)
   \<and> (status (fst (cpu_calls h cs s w)) = ''running'' \<longrightarrow> running (fst (cpu_calls h cs s w)))"
proof (induction h cs s w rule: cpu_calls.induct)
  case (1 h s w)
  then show ?case by simp
next
  case (2 h cfg cs s w)
  show ?case
    unfolding cpu_calls.simps
    by (rule "2.IH") (use "2.prems" cpu_initialize_frame[of h cfg s] in simp)
next
  case (3 h cs s w)
  show ?case
    unfolding cpu_calls.simps
    by (rule "3.IH") (use "3.prems" in \<open>simp add: start_def\<close>)
next
  case (4 h cs s w)
  show ?case
    unfolding cpu_calls.simps
    by (rule "4.IH") (use "4.prems" in \<open>simp add: stop_def\<close>)
qed

lemma svc_lifecycle:
  "(running s \<longrightarrow> start_time s \<noteq> None) \<and> (status s = ''running'' \<longrightarrow> running s) \<Longrightarrow>
   (running (fst (svc_calls h cs s w)) \<longrightarrow> start_time (fst (svc_calls h cs s w)) \<noteq> None)
   \<and> (status (fst (svc_calls h cs s w)) = ''running'' \<longrightarrow> running (fst (svc_calls h cs s w)))"
proof (induction h cs s w rule: svc_calls.induct)
  case (1 h s w)
  then show ?case by simp
next
  case (2 h cfg cs s w)
  show ?case
    unfolding svc_calls.simps
    by (rule "2.IH") (use "2.prems" svc_initialize_frame[of h cfg s w] in simp)
next
  case (3 h cs s w)
  show ?case
    unfolding svc_calls.simps
    by (rule "3.IH") (use "3.prems" in \<open>simp add: start_def\<close>)
next
  case (4 h cs s w)
  show ?case
    unfolding svc_calls.simps
    by (rule "4.IH") (use "4.prems" in \<open>simp add: stop_def\<close>)
qed

lemma cpu_instance:
  "(running (fst (cpu_calls h cs cpu_new w)) \<longrightarrow> start_time (fst (cpu_calls h cs cpu_new w)) \<noteq> None)
   \<and> (status (fst (cpu_calls h cs cpu_new w)) = ''running'' \<longrightarrow> running (fst (cpu_calls h cs cpu_new w)))"
  by (rule cpu_lifecycle) (simp add: cpu_new_def)

lemma svc_instance:
  "(running (fst (svc_calls h cs svc_new w)) \<longrightarrow> start_time (fst (svc_calls h cs svc_new w)) \<noteq> None)
   \<and> (status (fst (svc_calls h cs svc_new w)) = ''running'' \<longrightarrow> running (fst (svc_calls h cs svc_new w)))"
  by (rule svc_lifecycle) (simp add: svc_new_def)

lemma cpu_health_fields:
  assumes "cpu_percent h (Suc w) = Inr u"
  shows "reply_field ''uptime'' (fst (cpu_get_health h s w))
           = Some (case start_time s of None \<Rightarrow> VInt 0
                   | Some t0 \<Rightarrow> total_seconds (clock h (Suc (Suc w)) - t0))"
    and "(reply_field ''status'' (fst (cpu_get_health h s w)) = Some (VStr ''healthy'')) = running s"
  using assms
  by (simp_all add: cpu_get_health_def Let_def reply_field_def field_def split: option.split)

lemma svc_health_fields:
  assumes "py_len h (allowed_services s) = Inr n"
  shows "reply_field ''uptime'' (fst (svc_get_health h s w))
           = Some (case start_time s of None \<Rightarrow> VInt 0
                   | Some t0 \<Rightarrow> total_seconds (clock h (Suc w) - t0))"
    and "(reply_field ''status'' (fst (svc_get_health h s w)) = Some (VStr ''healthy'')) = running s"
  using assms
  by (simp_all add: svc_get_health_def Let_def reply_field_def field_def split: option.split)

text \<open>
  \<^verbatim>\<open>start_time\<close> is written by \<^verbatim>\<open>start()\<close> alone, and neither \<^verbatim>\<open>stop()\<close> nor
  \<^verbatim>\<open>initialize()\<close> clears it: after any sequence of lifecycle calls on a fresh instance
  it is set if and only if \<^verbatim>\<open>start()\<close> is among them.
\<close>

lemma cpu_started_link:
  "(running s \<longrightarrow> start_time s \<noteq> None) \<Longrightarrow>
   (start_time (fst (cpu_calls h cs s w)) \<noteq> None) = (start_time s \<noteq> None \<or> Start \<in> set cs)"
proof (induction h cs s w rule: cpu_calls.induct)
  case (1 h s w)
  then show ?case by simp
next
  case (2 h cfg cs s w)
  have "(start_time (fst (cpu_calls h cs (snd (cpu_initialize h cfg s)) w)) \<noteq> None)
      = (start_time (snd (cpu_initialize h cfg s)) \<noteq> None \<or> Start \<in> set cs)"
    by (rule "2.IH") (use "2.prems" cpu_initialize_frame[of h cfg s] in simp)
  then show ?case
    using cpu_initialize_frame[of h cfg s] by simp
next
  case (3 h cs s w)
  have "(start_time (fst (cpu_calls h cs (fst (snd (start h s w))) (snd (snd (start h s w))))) \<noteq> None)
      = (start_time (fst (snd (start h s w))) \<noteq> None \<or> Start \<in> set cs)"
    by (rule "3.IH") (use "3.prems" in \<open>simp add: start_def\<close>)
  moreover have "start_time (fst (snd (start h s w))) \<noteq> None"
    using "3.prems" by (simp add: start_def)
  ultimately show ?case by simp
next
  case (4 h cs s w)
  have "(start_time (fst (cpu_calls h cs (snd (stop s)) w)) \<noteq> None)
      = (start_time (snd (stop s)) \<noteq> None \<or> Start \<in> set cs)"
    by (rule "4.IH") (simp add: stop_def)
  then show ?case by (simp add: stop_def)
qed

lemma svc_started_link:
  "(running s \<longrightarrow> start_time s \<noteq> None) \<Longrightarrow>
   (start_time (fst (svc_calls h cs s w)) \<noteq> None) = (start_time s \<noteq> None \<or> Start \<in> set cs)"
proof (induction h cs s w rule: svc_calls.induct)
  case (1 h s w)
  then show ?case by simp
next
  case (2 h cfg cs s w)
  have "(start_time (fst (svc_calls h cs (snd (fst (svc_initialize h cfg s w)))
            (snd (svc_initialize h cfg s w)))) \<noteq> None)
      = (start_time (snd (fst (svc_initialize h cfg s w))) \<noteq> None \<or> Start \<in> set cs)"
    by (rule "2.IH") (use "2.prems" svc_initialize_frame[of h cfg s w] in simp)
  then show ?case
    using svc_initialize_frame[of h cfg s w] by simp
next
  case (3 h cs s w)
  have "(start_time (fst (svc_calls h cs (fst (snd (start h s w))) (snd (snd (start h s w))))) \<noteq> None)
      = (start_time (fst (snd (start h s w))) \<noteq> None \<or> Start \<in> set cs)"
    by (rule "3.IH") (use "3.prems" in \<open>simp add: start_def\<close>)
  moreover have "start_time (fst (snd (start h s w))) \<noteq> None"
    using "3.prems" by (simp add: start_def)
  ultimately show ?case by simp
next
  case (4 h cs s w)
  have "(start_time (fst (svc_calls h cs (snd (stop s)) w)) \<noteq> None)
      = (start_time (snd (stop s)) \<noteq> None \<or> Start \<in> set cs)"
    by (rule "4.IH") (simp add: stop_def)
  then show ?case by (simp add: stop_def)
qed

lemma cpu_started_iff:
  "(start_time (fst (cpu_calls h cs cpu_new w)) \<noteq> None) = (Start \<in> set cs)"
  using cpu_started_link[of cpu_new h cs w] by (simp add: cpu_new_def)

lemma svc_started_iff:
  "(start_time (fst (svc_calls h cs svc_new w)) \<noteq> None) = (Start \<in> set cs)"
  using svc_started_link[of svc_new h cs w] by (simp add: svc_new_def)

text \<open>
  The claim as it is stated fails twice. \<^verbatim>\<open>stop()\<close> keeps \<^verbatim>\<open>start_time\<close>, and
  \<^verbatim>\<open>get_health\<close> computes the uptime whenever \<^verbatim>\<open>start_time\<close> is set, so a stopped plugin
  reports a growing uptime, not 0. And the health status follows the \<^verbatim>\<open>running\<close> flag, which
  \<^verbatim>\<open>initialize\<close> does not clear: a plugin initialized again while running is
  \<^verbatim>\<open>"healthy"\<close> in state \<^verbatim>\<open>"initialized"\<close>.
\<close>

theorem get_health_counterexample:
  "running cpu_stopped_again = False
   \<and> get_status cpu_stopped_again = ''stopped''
   \<and> reply_field ''uptime'' (fst (cpu_get_health demo_host cpu_stopped_again 5))
       = Some (VFloat (Fin (7 / 1000)))
   \<and> get_status cpu_reinitialized = ''initialized''
   \<and> reply_field ''status'' (fst (cpu_get_health demo_host cpu_reinitialized 5)) = Some (VStr ''healthy'')"
  by (simp add: cpu_stopped_again_eq cpu_reinitialized_eq cpu_get_health_def demo_host_def
      reply_field_def field_def get_status_def total_seconds_def)

text \<open>
  Claim C1, amended. For every plugin instance, reached from a fresh one by any sequence
  \<open>calls\<close> of \<^verbatim>\<open>initialize\<close>, \<^verbatim>\<open>start\<close> and \<^verbatim>\<open>stop\<close>, whenever \<^verbatim>\<open>get_health()\<close> returns a
  report (the CPU sample succeeds, the allowed services have a length): if \<^verbatim>\<open>start()\<close> is
  among the calls, the uptime is \<open>now - start_time\<close>, whatever was called after it, also
  \<^verbatim>\<open>stop()\<close>; if \<^verbatim>\<open>start()\<close> is not among them, the plugin was never started and the uptime
  is 0. The status is \<^verbatim>\<open>"healthy"\<close> if and only if the \<^verbatim>\<open>running\<close> flag is set. A running
  plugin has a start time, and a plugin in lifecycle state \<^verbatim>\<open>"running"\<close> has the flag set,
  so it is healthy.
\<close>

theorem get_health_report:
  "(s = fst (cpu_calls h calls cpu_new v) \<and> cpu_percent h (Suc w) = Inr u \<longrightarrow>
      reply_field ''uptime'' (fst (cpu_get_health h s w))
        = Some (case start_time s of None \<Rightarrow> VInt 0
                | Some t0 \<Rightarrow> total_seconds (clock h (Suc (Suc w)) - t0))
      \<and> ((start_time s \<noteq> None) = (Start \<in> set calls))
      \<and> (Start \<in> set calls \<longrightarrow>
            (\<exists>t0. start_time s = Some t0
               \<and> reply_field ''uptime'' (fst (cpu_get_health h s w))
                   = Some (total_seconds (clock h (Suc (Suc w)) - t0))))
      \<and> (Start \<notin> set calls \<longrightarrow> reply_field ''uptime'' (fst (cpu_get_health h s w)) = Some (VInt 0))
      \<and> ((reply_field ''status'' (fst (cpu_get_health h s w)) = Some (VStr ''healthy'')) = running s)
      \<and> (running s \<longrightarrow> start_time s \<noteq> None)
      \<and> (get_status s = ''running'' \<longrightarrow> running s))
   \<and> (t = fst (svc_calls h tcalls svc_new tv) \<and> py_len h (allowed_services t) = Inr n \<longrightarrow>
      reply_field ''uptime'' (fst (svc_get_health h t w))
        = Some (case start_time t of None \<Rightarrow> VInt 0
                | Some t0 \<Rightarrow> total_seconds (clock h (Suc w) - t0))
      \<and> ((start_time t \<noteq> None) = (Start \<in> set tcalls))
      \<and> (Start \<in> set tcalls \<longrightarrow>
            (\<exists>t0. start_time t = Some t0
               \<and> reply_field ''uptime'' (fst (svc_get_health h t w))
                   = Some (total_seconds (clock h (Suc w) - t0))))
      \<and> (Start \<notin> set tcalls \<longrightarrow> reply_field ''uptime'' (fst (svc_get_health h t w)) = Some (VInt 0))
      \<and> ((reply_field ''status'' (fst (svc_get_health h t w)) = Some (VStr ''healthy'')) = running t)
      \<and> (running t \<longrightarrow> start_time t \<noteq> None)
      \<and> (get_status t = ''running'' \<longrightarrow> running t))"
proof (rule conjI)
  show "s = fst (cpu_calls h calls cpu_new v) \<and> cpu_percent h (Suc w) = Inr u \<longrightarrow>
      reply_field ''uptime'' (fst (cpu_get_health h s w))
        = Some (case start_time s of None \<Rightarrow> VInt 0
                | Some t0 \<Rightarrow> total_seconds (clock h (Suc (Suc w)) - t0))
      \<and> ((start_time s \<noteq> None) = (Start \<in> set calls))
      \<and> (Start \<in> set calls \<longrightarrow>
            (\<exists>t0. start_time s = Some t0
               \<and> reply_field ''uptime'' (fst (cpu_get_health h s w))
                   = Some (total_seconds (clock h (Suc (Suc w)) - t0))))
      \<and> (Start \<notin> set calls \<longrightarrow> reply_field ''uptime'' (fst (cpu_get_health h s w)) = Some (VInt 0))
      \<and> ((reply_field ''status'' (fst (cpu_get_health h s w)) = Some (VStr ''healthy'')) = running s)
      \<and> (running s \<longrightarrow> start_time s \<noteq> None)
      \<and> (get_status s = ''running'' \<longrightarrow> running s)"
  proof
    assume a: "s = fst (cpu_calls h calls cpu_new v) \<and> cpu_percent h (Suc w) = Inr u"
    then have sample: "cpu_percent h (Suc w) = Inr u" by (rule conjunct2)
    have life: "(running s \<longrightarrow> start_time s \<noteq> None) \<and> (get_status s = ''running'' \<longrightarrow> running s)"
      using a cpu_instance[of h calls v] by (simp add: get_status_def)
    have started: "(start_time s \<noteq> None) = (Start \<in> set calls)"
      using a cpu_started_iff[of h calls v] by simp
    note fields = cpu_health_fields[OF sample, where s = s]
    have up: "Start \<in> set calls \<longrightarrow>
            (\<exists>t0. start_time s = Some t0
               \<and> reply_field ''uptime'' (fst (cpu_get_health h s w))
                   = Some (total_seconds (clock h (Suc (Suc w)) - t0)))"
      using started fields(1) by auto
    have zero: "Start \<notin> set calls \<longrightarrow> reply_field ''uptime'' (fst (cpu_get_health h s w)) = Some (VInt 0)"
      using started fields(1) by auto
    show "reply_field ''uptime'' (fst (cpu_get_health h s w))
        = Some (case start_time s of None \<Rightarrow> VInt 0
                | Some t0 \<Rightarrow> total_seconds (clock h (Suc (Suc w)) - t0))
      \<and> ((start_time s \<noteq> None) = (Start \<in> set calls))
      \<and> (Start \<in> set calls \<longrightarrow>
            (\<exists>t0. start_time s = Some t0
               \<and> reply_field ''uptime'' (fst (cpu_get_health h s w))
                   = Some (total_seconds (clock h (Suc (Suc w)) - t0))))
      \<and> (Start \<notin> set calls \<longrightarrow> reply_field ''uptime'' (fst (cpu_get_health h s w)) = Some (VInt 0))
      \<and> ((reply_field ''status'' (fst (cpu_get_health h s w)) = Some (VStr ''healthy'')) = running s)
      \<and> (running s \<longrightarrow> start_time s \<noteq> None)
      \<and> (get_status s = ''running'' \<longrightarrow> running s)"
      using fields life started up zero by blast
  qed
next
  show "t = fst (svc_calls h tcalls svc_new tv) \<and> py_len h (allowed_services t) = Inr n \<longrightarrow>
      reply_field ''uptime'' (fst (svc_get_health h t w))
        = Some (case start_time t of None \<Rightarrow> VInt 0
                | Some t0 \<Rightarrow> total_seconds (clock h (Suc w) - t0))
      \<and> ((start_time t \<noteq> None) = (Start \<in> set tcalls))
      \<and> (Start \<in> set tcalls \<longrightarrow>
            (\<exists>t0. start_time t = Some t0
               \<and> reply_field ''uptime'' (fst (svc_get_health h t w))
                   = Some (total_seconds (clock h (Suc w) - t0))))
      \<and> (Start \<notin> set tcalls \<longrightarrow> reply_field ''uptime'' (fst (svc_get_health h t w)) = Some (VInt 0))
      \<and> ((reply_field ''status'' (fst (svc_get_health h t w)) = Some (VStr ''healthy'')) = running t)
      \<and> (running t \<longrightarrow> start_time t \<noteq> None)
      \<and> (get_status t = ''running'' \<longrightarrow> running t)"
  proof
    assume a: "t = fst (svc_calls h tcalls svc_new tv) \<and> py_len h (allowed_services t) = Inr n"
    then have len: "py_len h (allowed_services t) = Inr n" by (rule conjunct2)
    have life: "(running t \<longrightarrow> start_time t \<noteq> None) \<and> (get_status t = ''running'' \<longrightarrow> running t)"
      using a svc_instance[of h tcalls tv] by (simp add: get_status_def)
    have started: "(start_time t \<noteq> None) = (Start \<in> set tcalls)"
      using a svc_started_iff[of h tcalls tv] by simp
    note fields = svc_health_fields[OF len, where w = w]
    have up: "Start \<in> set tcalls \<longrightarrow>
            (\<exists>t0. start_time t = Some t0
               \<and> reply_field ''uptime'' (fst (svc_get_health h t w))
                   = Some (total_seconds (clock h (Suc w) - t0)))"
      using started fields(1) by auto
    have zero: "Start \<notin> set tcalls \<longrightarrow> reply_field ''uptime'' (fst (svc_get_health h t w)) = Some (VInt 0)"
      using started fields(1) by auto
    show "reply_field ''uptime'' (fst (svc_get_health h t w))
        = Some (case start_time t of None \<Rightarrow> VInt 0
                | Some t0 \<Rightarrow> total_seconds (clock h (Suc w) - t0))
      \<and> ((start_time t \<noteq> None) = (Start \<in> set tcalls))
      \<and> (Start \<in> set tcalls \<longrightarrow>
            (\<exists>t0. start_time t = Some t0
               \<and> reply_field ''uptime'' (fst (svc_get_health h t w))
                   = Some (total_seconds (clock h (Suc w) - t0))))
      \<and> (Start \<notin> set tcalls \<longrightarrow> reply_field ''uptime'' (fst (svc_get_health h t w)) = Some (VInt 0))
      \<and> ((reply_field ''status'' (fst (svc_get_health h t w)) = Some (VStr ''healthy'')) = running t)
      \<and> (running t \<longrightarrow> start_time t \<noteq> None)
      \<and> (get_status t = ''running'' \<longrightarrow> running t)"
      using fields life started up zero by blast
  qed
qed

lemma cpu_stopped_again_calls: "cpu_stopped_again = fst (cpu_calls demo_host [Start, Stop] cpu_new 0)"
  by (simp add: cpu_stopped_again_def)

lemma svc_stopped_again_calls: "svc_stopped_again = fst (svc_calls demo_host [Start, Stop] svc_new 0)"
  by (simp add: svc_stopped_again_def)

theorem get_health_report_witness:
  "cpu_stopped_again = fst (cpu_calls demo_host [Start, Stop] cpu_new 0)
   \<and> cpu_percent demo_host (Suc 5) = Inr (Fin 95)
   \<and> Start \<in> set [Start, Stop]
   \<and> reply_field ''uptime'' (fst (cpu_get_health demo_host cpu_stopped_again 5))
       = Some (VFloat (Fin (7 / 1000)))
   \<and> reply_field ''status'' (fst (cpu_get_health demo_host cpu_stopped_again 5)) \<noteq> Some (VStr ''healthy'')
   \<and> cpu_new = fst (cpu_calls demo_host [] cpu_new 0)
   \<and> Start \<notin> set []
   \<and> reply_field ''uptime'' (fst (cpu_get_health demo_host cpu_new 5)) = Some (VInt 0)
   \<and> svc_stopped_again = fst (svc_calls demo_host [Start, Stop] svc_new 0)
   \<and> py_len demo_host (allowed_services svc_stopped_again) = Inr 0
   \<and> reply_field ''uptime'' (fst (svc_get_health demo_host svc_stopped_again 5))
       = Some (VFloat (Fin (6 / 1000)))
   \<and> reply_field ''status'' (fst (svc_get_health demo_host svc_stopped_again 5)) \<noteq> Some (VStr ''healthy'')
   \<and> svc_new = fst (svc_calls demo_host [] svc_new 0)
   \<and> py_len demo_host (allowed_services svc_new) = Inr 0
   \<and> reply_field ''uptime'' (fst (svc_get_health demo_host svc_new 5)) = Some (VInt 0)"
proof -
  note report = get_health_report [where h = demo_host and s = cpu_stopped_again and w = 5
      and u = "Fin 95" and calls = "[Start, Stop]" and v = 0
      and t = svc_stopped_again and n = 0 and tcalls = "[Start, Stop]" and tv = 0]
  note fresh = get_health_report [where h = demo_host and s = cpu_new and w = 5
      and u = "Fin 95" and calls = "[]" and v = 0
      and t = svc_new and n = 0 and tcalls = "[]" and tv = 0]
  have sample: "cpu_percent demo_host (Suc 5) = Inr (Fin 95)"
    by (simp add: demo_host_def)
  have len: "py_len demo_host (allowed_services svc_stopped_again) = Inr 0"
    by (simp add: svc_stopped_again_eq py_len_def)
  have len0: "py_len demo_host (allowed_services svc_new) = Inr 0"
    by (simp add: svc_new_def py_len_def)
  have nil: "cpu_new = fst (cpu_calls demo_host [] cpu_new 0)"
    "svc_new = fst (svc_calls demo_host [] svc_new 0)"
    by simp_all
  have mem: "Start \<in> set [Start, Stop]" "Start \<notin> set []"
    by simp_all
  from report cpu_stopped_again_calls sample mem(1)
  have cpu: "\<exists>t0. start_time cpu_stopped_again = Some t0
       \<and> reply_field ''uptime'' (fst (cpu_get_health demo_host cpu_stopped_again 5))
           = Some (total_seconds (clock demo_host (Suc (Suc 5)) - t0))"
    "(reply_field ''status'' (fst (cpu_get_health demo_host cpu_stopped_again 5)) = Some (VStr ''healthy''))
       = running cpu_stopped_again"
    by blast+
  from report svc_stopped_again_calls len mem(1)
  have svc: "\<exists>t0. start_time svc_stopped_again = Some t0
       \<and> reply_field ''uptime'' (fst (svc_get_health demo_host svc_stopped_again 5))
           = Some (total_seconds (clock demo_host (Suc 5) - t0))"
    "(reply_field ''status'' (fst (svc_get_health demo_host svc_stopped_again 5)) = Some (VStr ''healthy''))
       = running svc_stopped_again"
    by blast+
  from fresh nil(1) sample mem(2)
  have cpu0: "reply_field ''uptime'' (fst (cpu_get_health demo_host cpu_new 5)) = Some (VInt 0)"
    by blast
  from fresh nil(2) len0 mem(2)
  have svc0: "reply_field ''uptime'' (fst (svc_get_health demo_host svc_new 5)) = Some (VInt 0)"
    by blast
  have vals: "start_time cpu_stopped_again = Some 0" "start_time svc_stopped_again = Some 0"
    "total_seconds (clock demo_host (Suc (Suc 5)) - 0) = VFloat (Fin (7 / 1000))"
    "total_seconds (clock demo_host (Suc 5) - 0) = VFloat (Fin (6 / 1000))"
    "running cpu_stopped_again = False" "running svc_stopped_again = False"
    by (simp_all add: cpu_stopped_again_eq svc_stopped_again_eq demo_host_def total_seconds_def)
  from cpu(1) vals(1,3)
  have cpu_up: "reply_field ''uptime'' (fst (cpu_get_health demo_host cpu_stopped_again 5))
       = Some (VFloat (Fin (7 / 1000)))"
    by auto
  from svc(1) vals(2,4)
  have svc_up: "reply_field ''uptime'' (fst (svc_get_health demo_host svc_stopped_again 5))
       = Some (VFloat (Fin (6 / 1000)))"
    by auto
  show ?thesis
    using cpu_up svc_up cpu(2) svc(2) cpu0 svc0 vals(5,6) sample len len0
      cpu_stopped_again_calls svc_stopped_again_calls nil
    by (simp del: cpu_calls.simps svc_calls.simps)
qed

subsection \<open>Plugin metadata\<close>

text \<open>
  The claim as it is stated fails: \<^verbatim>\<open>get_info\<close> builds a new dict on every call and
  writes \<^verbatim>\<open>datetime.now().isoformat()\<close> under \<^verbatim>\<open>created_at\<close> and \<^verbatim>\<open>updated_at\<close>, so two calls
  made at different clock readings return different objects.
\<close>

theorem get_info_counterexample:
  "fst (cpu_get_info demo_host 0) \<noteq> fst (cpu_get_info demo_host 2)
   \<and> field ''created_at'' (fst (cpu_get_info demo_host 0)) = Some (VTime 0)
   \<and> field ''created_at'' (fst (cpu_get_info demo_host 2)) = Some (VTime 2000)
   \<and> fst (svc_get_info demo_host 0) \<noteq> fst (svc_get_info demo_host 2)"
  by (simp add: cpu_get_info_def svc_get_info_def demo_host_def field_def)

text \<open>
  Claim C2, amended. Any two \<^verbatim>\<open>get_info\<close> calls on a plugin return objects that agree on
  every field other than \<^verbatim>\<open>created_at\<close> and \<^verbatim>\<open>updated_at\<close>; those two fields carry the two
  clock readings made during the call, so the two objects are identical exactly when the
  readings of the two calls coincide.
\<close>

theorem get_info_static_fields:
  "(k \<noteq> ''created_at'' \<and> k \<noteq> ''updated_at'' \<longrightarrow>
      field k (fst (cpu_get_info h w)) = field k (fst (cpu_get_info h w'))
      \<and> field k (fst (svc_get_info h w)) = field k (fst (svc_get_info h w')))
   \<and> field ''created_at'' (fst (cpu_get_info h w)) = Some (VTime (clock h w))
   \<and> field ''updated_at'' (fst (cpu_get_info h w)) = Some (VTime (clock h (Suc w)))
   \<and> field ''created_at'' (fst (svc_get_info h w)) = Some (VTime (clock h w))
   \<and> field ''updated_at'' (fst (svc_get_info h w)) = Some (VTime (clock h (Suc w)))
   \<and> ((fst (cpu_get_info h w) = fst (cpu_get_info h w'))
        = (clock h w = clock h w' \<and> clock h (Suc w) = clock h (Suc w')))
   \<and> ((fst (svc_get_info h w) = fst (svc_get_info h w'))
        = (clock h w = clock h w' \<and> clock h (Suc w) = clock h (Suc w')))"
  by (simp add: cpu_get_info_def svc_get_info_def field_def)

theorem get_info_static_fields_witness:
  "''version'' \<noteq> ''created_at'' \<and> ''version'' \<noteq> ''updated_at''
   \<and> field ''version'' (fst (cpu_get_info demo_host 0)) = Some (VStr ''1.0.0'')
   \<and> field ''version'' (fst (cpu_get_info demo_host 2)) = Some (VStr ''1.0.0'')
   \<and> field ''created_at'' (fst (cpu_get_info demo_host 2)) = Some (VTime 2000)
   \<and> field ''updated_at'' (fst (svc_get_info demo_host 2)) = Some (VTime 3000)"
  using get_info_static_fields [where k = "''version''" and h = demo_host and w = 0 and w' = 2]
        get_info_static_fields [where k = "''version''" and h = demo_host and w = 2 and w' = 0]
  by (simp add: cpu_get_info_def demo_host_def field_def)

subsection \<open>The dispatch loop: blank lines\<close>

lemma strip_blank: "list_all is_space raw \<Longrightarrow> strip raw = []"
proof -
  assume "list_all is_space raw"
  then have d: "dropWhile is_space raw = []"
    by (simp add: list_all_iff)
  show ?thesis
    unfolding strip_def d by simp
qed

lemma main_loop_blank: "list_all is_space raw \<Longrightarrow> main_loop h d (raw # rest) s w = ([], s, w)"
  by (simp add: strip_blank)

lemma main_loop_cut:
  "list_all is_space raw \<Longrightarrow> main_loop h d (before @ raw # rest) s w = main_loop h d before s w"
proof (induction before arbitrary: s w)
  case Nil
  then show ?case by (simp add: strip_blank)
next
  case (Cons l ls)
  show ?case
  proof (cases "strip l = []")
    case True
    then show ?thesis by simp
  next
    case False
    obtain r s' w' where step: "run_command h d (strip l) s w = (r, s', w')"
      by (cases "run_command h d (strip l) s w") auto
    from Cons.IH[OF Cons.prems, of s' w'] False step show ?thesis
      by (simp add: Let_def)
  qed
qed

text \<open>
  Claim C9. The dispatch loop ends at the first line that is empty or holds only
  whitespace, whether or not the input has ended: no response is printed for that line,
  no later line is processed, and the run is the run on the lines before it, so a blank
  line is indistinguishable from the end of the input.
\<close>

theorem blank_line_ends_loop:
  "list_all is_space raw \<longrightarrow>
     main_loop h d (raw # rest) s w = ([], s, w)
     \<and> main_loop h d (before @ raw # rest) s w = main_loop h d before s w
     \<and> cpu_main h (before @ raw # rest) = cpu_main h before
     \<and> svc_main h (before @ raw # rest) = svc_main h before"
proof (intro impI conjI)
  assume blank: "list_all is_space raw"
  show "main_loop h d (raw # rest) s w = ([], s, w)"
    using blank by (rule main_loop_blank)
  show "main_loop h d (before @ raw # rest) s w = main_loop h d before s w"
    using blank by (rule main_loop_cut)
  show "cpu_main h (before @ raw # rest) = cpu_main h before"
    unfolding cpu_main_def using blank by (rule main_loop_cut)
  show "svc_main h (before @ raw # rest) = svc_main h before"
    unfolding svc_main_def using blank by (rule main_loop_cut)
qed

lemma action_line_not_blank: "strip (action_line a) = action_line a"
  by (simp add: strip_def action_line_def dquote_def is_space_def)

lemma loads_get_status:
  "json_loads loop_host (action_line ''get_status'') = Some (VDict [(''action'', VStr ''get_status'')])"
  by (simp add: loop_host_def demo_loads_def action_line_def dquote_def)

lemma action_line_nonempty: "action_line a \<noteq> []"
  by (simp add: action_line_def)

lemma cpu_main_nil: "cpu_main h [] = ([], cpu_new, 0)"
  by (simp add: cpu_main_def)

lemma run_get_status:
  "cpu_main loop_host [action_line ''get_status'']
     = ([VDict [(''action'', VStr ''get_status''), (''success'', VBool True), (''data'', VStr ''stopped'')]],
        cpu_new, 0)"
  by (simp add: cpu_main_def Let_def action_line_not_blank action_line_nonempty run_command_def
      loads_get_status cpu_dispatch_def py_get_def as_str_def get_status_def cpu_new_def)

theorem blank_line_ends_loop_witness:
  "list_all is_space ('' '' @ [CHR 0x0A])
   \<and> fst (cpu_main loop_host [action_line ''get_status'', '' '' @ [CHR 0x0A], action_line ''start''])
       = fst (cpu_main loop_host [action_line ''get_status''])
   \<and> fst (cpu_main loop_host [action_line ''get_status''])
       = [VDict [(''action'', VStr ''get_status''), (''success'', VBool True), (''data'', VStr ''stopped'')]]
   \<and> cpu_main loop_host ([] # [action_line ''start'']) = ([], cpu_new, 0)"
  using blank_line_ends_loop [where raw = "'' '' @ [CHR 0x0A]" and h = loop_host
          and before = "[action_line ''get_status'']" and rest = "[action_line ''start'']"
          and d = "cpu_dispatch loop_host" and s = cpu_new and w = 0]
        blank_line_ends_loop [where raw = "[]" and h = loop_host
          and before = "[]" and rest = "[action_line ''start'']"
          and d = "cpu_dispatch loop_host" and s = cpu_new and w = 0]
  by (simp add: is_space_def run_get_status cpu_main_nil)

subsection \<open>The dispatch loop: unknown actions\<close>

lemma cpu_unknown_action:
  assumes "map_of cmd ''action'' = Some (VStr a)" and "a \<notin> set cpu_actions"
  shows "cpu_dispatch h (VDict cmd) s w
     = (Inr (VDict [(''action'', VStr a), (''success'', VBool False),
                    (''error'', VStr (''Unknown action: '' @ a))]), s, w)"
  using assms
  by (simp add: cpu_dispatch_def cpu_actions_def py_get_def as_str_def py_str_def Let_def)

lemma svc_unknown_action:
  assumes "map_of cmd ''action'' = Some (VStr a)" and "a \<notin> set svc_actions"
  shows "svc_dispatch h (VDict cmd) s w
     = (Inr (VDict [(''action'', VStr a), (''success'', VBool False),
                    (''error'', VStr (''Unknown action: '' @ a))]), s, w)"
  using assms
  by (simp add: svc_dispatch_def svc_actions_def py_get_def as_str_def py_str_def Let_def)

lemma main_loop_step:
  assumes "strip raw \<noteq> []" and "json_loads h (strip raw) = Some command"
    and "d command s w = (Inr response, s', w')"
  shows "main_loop h d (raw # rest) s w
     = (response # fst (main_loop h d rest s' w'), snd (main_loop h d rest s' w'))"
  using assms
  by (simp add: Let_def run_command_def split: prod.splits)

text \<open>
  Claim C8. For a well-formed command line whose \<^verbatim>\<open>action\<close> is a string that neither
  \<^verbatim>\<open>main\<close> has a branch for, such as \<^verbatim>\<open>"foo"\<close>, the dispatch loop prints exactly one
  response, \<^verbatim>\<open>{"action": a, "success": false, "error": "Unknown action: a"}\<close>, leaves the
  plugin as it was and goes on with the next line.
\<close>

theorem unknown_action_response:
  assumes "strip raw \<noteq> []" and "json_loads h (strip raw) = Some (VDict cmd)"
    and "map_of cmd ''action'' = Some (VStr a)"
  shows "(a \<notin> set cpu_actions \<longrightarrow>
            main_loop h (cpu_dispatch h) (raw # rest) s w
              = (VDict [(''action'', VStr a), (''success'', VBool False),
                        (''error'', VStr (''Unknown action: '' @ a))]
                   # fst (main_loop h (cpu_dispatch h) rest s w),
                 snd (main_loop h (cpu_dispatch h) rest s w)))
       \<and> (a \<notin> set svc_actions \<longrightarrow>
            main_loop h (svc_dispatch h) (raw # rest) s' w
              = (VDict [(''action'', VStr a), (''success'', VBool False),
                        (''error'', VStr (''Unknown action: '' @ a))]
                   # fst (main_loop h (svc_dispatch h) rest s' w),
                 snd (main_loop h (svc_dispatch h) rest s' w)))"
proof (intro conjI impI)
  assume "a \<notin> set cpu_actions"
  then have "cpu_dispatch h (VDict cmd) s w
     = (Inr (VDict [(''action'', VStr a), (''success'', VBool False),
                    (''error'', VStr (''Unknown action: '' @ a))]), s, w)"
    using assms(3) by (simp add: cpu_unknown_action)
  then show "main_loop h (cpu_dispatch h) (raw # rest) s w
              = (VDict [(''action'', VStr a), (''success'', VBool False),
                        (''error'', VStr (''Unknown action: '' @ a))]
                   # fst (main_loop h (cpu_dispatch h) rest s w),
                 snd (main_loop h (cpu_dispatch h) rest s w))"
    by (rule main_loop_step[OF assms(1,2)])
next
  assume "a \<notin> set svc_actions"
  then have "svc_dispatch h (VDict cmd) s' w
     = (Inr (VDict [(''action'', VStr a), (''success'', VBool False),
                    (''error'', VStr (''Unknown action: '' @ a))]), s', w)"
    using assms(3) by (simp add: svc_unknown_action)
  then show "main_loop h (svc_dispatch h) (raw # rest) s' w
              = (VDict [(''action'', VStr a), (''success'', VBool False),
                        (''error'', VStr (''Unknown action: '' @ a))]
                   # fst (main_loop h (svc_dispatch h) rest s' w),
                 snd (main_loop h (svc_dispatch h) rest s' w))"
    by (rule main_loop_step[OF assms(1,2)])
qed

lemma loads_foo:
  "json_loads loop_host (action_line ''foo'') = Some (VDict [(''action'', VStr ''foo'')])"
  by (simp add: loop_host_def demo_loads_def action_line_def dquote_def)

theorem unknown_action_response_witness:
  "strip (action_line ''foo'') \<noteq> []
   \<and> json_loads loop_host (strip (action_line ''foo'')) = Some (VDict [(''action'', VStr ''foo'')])
   \<and> ''foo'' \<notin> set cpu_actions \<and> ''foo'' \<notin> set svc_actions
   \<and> cpu_main loop_host [action_line ''foo'']
       = ([VDict [(''action'', VStr ''foo''), (''success'', VBool False),
                  (''error'', VStr ''Unknown action: foo'')]], cpu_new, 0)
   \<and> svc_main loop_host [action_line ''foo'']
       = ([VDict [(''action'', VStr ''foo''), (''success'', VBool False),
                  (''error'', VStr ''Unknown action: foo'')]], svc_new, 0)"
  using unknown_action_response [where raw = "action_line ''foo''" and h = loop_host
          and cmd = "[(''action'', VStr ''foo'')]" and a = "''foo''" and rest = "[]"
          and s = cpu_new and s' = svc_new and w = 0]
  by (simp add: action_line_not_blank action_line_nonempty loads_foo cpu_actions_def svc_actions_def
      cpu_main_def svc_main_def)

subsection \<open>Requests without an id\<close>

lemma execute_action_missing_id:
  assumes "map_of req ''id'' = None"
  shows "execute_action h (VDict req) s w
     = (Inl (Exn KeyError (squote @ ''id'' @ squote)), if running s then Suc w else w)"
  using assms by (simp add: execute_action_def py_getitem_def Let_def)

lemma main_loop_raise:
  assumes "strip raw \<noteq> []" and "json_loads h (strip raw) = Some command"
    and "d command s w = (Inl e, s', w')"
  shows "main_loop h d (raw # rest) s w
     = (VDict [(''error'', VStr (''Plugin error: '' @ str_exn e))] # fst (main_loop h d rest s' w'),
        snd (main_loop h d rest s' w'))"
  using assms
  by (simp add: Let_def run_command_def split: prod.splits)

lemma svc_dispatch_missing_id:
  assumes "map_of cmd ''action'' = Some (VStr ''execute_action'')"
    and "map_of cmd ''action_request'' = None \<or> map_of cmd ''action_request'' = Some (VDict req)"
    and "map_of req ''id'' = None"
  shows "svc_dispatch h (VDict cmd) s w
     = (Inl (Exn KeyError (squote @ ''id'' @ squote)), s, if running s then Suc w else w)"
proof -
  have "py_get (VDict cmd) ''action_request'' (VDict []) = Inr (VDict [])
      \<or> py_get (VDict cmd) ''action_request'' (VDict []) = Inr (VDict req)"
    using assms(2) by (auto simp: py_get_def)
  then have "\<exists>r. py_get (VDict cmd) ''action_request'' (VDict []) = Inr (VDict r) \<and> map_of r ''id'' = None"
    using assms(3) by auto
  then obtain r where r: "py_get (VDict cmd) ''action_request'' (VDict []) = Inr (VDict r)"
    "map_of r ''id'' = None" by blast
  have a: "py_get (VDict cmd) ''action'' VNone = Inr (VStr ''execute_action'')"
    using assms(1) by (simp add: py_get_def)
  show ?thesis
    by (simp add: svc_dispatch_def a r(1) execute_action_missing_id[OF r(2)] as_str_def Let_def)
qed

text \<open>
  Claim C10. For an \<^verbatim>\<open>action_request\<close> object without an \<^verbatim>\<open>"id"\<close> key, the empty object
  that the loop substitutes for a missing \<^verbatim>\<open>action_request\<close> included, \<^verbatim>\<open>execute_action\<close>
  raises \<^verbatim>\<open>KeyError\<close> instead of returning a result, and the loop answers the command with
  the one response \<^verbatim>\<open>{"error": "Plugin error: 'id'"}\<close>, which carries neither an action
  result nor the \<^verbatim>\<open>action\<close>, and goes on with the next line.
\<close>

theorem missing_request_id:
  assumes "map_of req ''id'' = None"
  shows "fst (execute_action h (VDict req) s w) = Inl (Exn KeyError (squote @ ''id'' @ squote))
    \<and> (strip raw \<noteq> [] \<and> json_loads h (strip raw) = Some (VDict cmd)
        \<and> map_of cmd ''action'' = Some (VStr ''execute_action'')
        \<and> (map_of cmd ''action_request'' = None \<or> map_of cmd ''action_request'' = Some (VDict req))
       \<longrightarrow>
         main_loop h (svc_dispatch h) (raw # rest) s w
           = (VDict [(''error'', VStr (''Plugin error: '' @ squote @ ''id'' @ squote))]
                # fst (main_loop h (svc_dispatch h) rest s (if running s then Suc w else w)),
              snd (main_loop h (svc_dispatch h) rest s (if running s then Suc w else w))))"
proof (intro conjI impI)
  show "fst (execute_action h (VDict req) s w) = Inl (Exn KeyError (squote @ ''id'' @ squote))"
    by (simp add: execute_action_missing_id[OF assms])
next
  assume line: "strip raw \<noteq> [] \<and> json_loads h (strip raw) = Some (VDict cmd)
        \<and> map_of cmd ''action'' = Some (VStr ''execute_action'')
        \<and> (map_of cmd ''action_request'' = None \<or> map_of cmd ''action_request'' = Some (VDict req))"
  then have d: "svc_dispatch h (VDict cmd) s w
     = (Inl (Exn KeyError (squote @ ''id'' @ squote)), s, if running s then Suc w else w)"
    using assms by (intro svc_dispatch_missing_id) auto
  have l1: "strip raw \<noteq> []" and l2: "json_loads h (strip raw) = Some (VDict cmd)"
    using line by auto
  from main_loop_raise[where d = "svc_dispatch h" and command = "VDict cmd" and s = s and w = w,
        OF l1 l2 d]
  show "main_loop h (svc_dispatch h) (raw # rest) s w
           = (VDict [(''error'', VStr (''Plugin error: '' @ squote @ ''id'' @ squote))]
                # fst (main_loop h (svc_dispatch h) rest s (if running s then Suc w else w)),
              snd (main_loop h (svc_dispatch h) rest s (if running s then Suc w else w)))"
    by simp
qed

lemma loads_execute:
  "json_loads loop_host (action_line ''execute_action'')
     = Some (VDict [(''action'', VStr ''execute_action'')])"
  by (simp add: loop_host_def demo_loads_def action_line_def dquote_def)

lemma svc_answers_foo:
  "main_loop loop_host (svc_dispatch loop_host) [action_line ''foo''] svc_new 0
     = ([VDict [(''action'', VStr ''foo''), (''success'', VBool False),
                (''error'', VStr ''Unknown action: foo'')]], svc_new, 0)"
proof -
  have d: "svc_dispatch loop_host (VDict [(''action'', VStr ''foo'')]) svc_new 0
     = (Inr (VDict [(''action'', VStr ''foo''), (''success'', VBool False),
                    (''error'', VStr (''Unknown action: '' @ ''foo''))]), svc_new, 0)"
    by (rule svc_unknown_action) (simp_all add: svc_actions_def)
  have l1: "strip (action_line ''foo'') \<noteq> []"
    by (simp add: action_line_not_blank action_line_nonempty)
  have l2: "json_loads loop_host (strip (action_line ''foo'')) = Some (VDict [(''action'', VStr ''foo'')])"
    by (simp add: action_line_not_blank loads_foo)
  from main_loop_step[where d = "svc_dispatch loop_host" and s = svc_new and w = 0
         and rest = "[]", OF l1 l2 d]
  show ?thesis by simp
qed

lemma svc_new_not_running: "running svc_new = False"
  by (simp add: svc_new_def)

theorem missing_request_id_witness:
  "map_of ([] :: (string \<times> pyval) list) ''id'' = None
   \<and> fst (execute_action loop_host (VDict []) svc_new 0) = Inl (Exn KeyError (squote @ ''id'' @ squote))
   \<and> strip (action_line ''execute_action'') \<noteq> []
   \<and> json_loads loop_host (strip (action_line ''execute_action''))
       = Some (VDict [(''action'', VStr ''execute_action'')])
   \<and> svc_main loop_host [action_line ''execute_action'', action_line ''foo'']
       = ([VDict [(''error'', VStr (''Plugin error: '' @ squote @ ''id'' @ squote))],
           VDict [(''action'', VStr ''foo''), (''success'', VBool False),
                  (''error'', VStr ''Unknown action: foo'')]],
          svc_new, 0)"
  using missing_request_id [where req = "[]" and h = loop_host and s = svc_new and w = 0
          and raw = "action_line ''execute_action''" and cmd = "[(''action'', VStr ''execute_action'')]"
          and rest = "[action_line ''foo'']"]
  by (simp add: action_line_not_blank action_line_nonempty loads_execute svc_main_def svc_answers_foo
        svc_new_not_running del: main_loop.simps)

subsection \<open>Failed action results\<close>






lemma svc_running_eq:
  "svc_running = \<lparr>config = VDict [], running = True, status = ''running'', start_time = Some 0,
      allowed_services = VList [], service_manager = VStr ''systemctl''\<rparr>"
  by (simp add: svc_running_def start_def svc_new_def demo_host_def)


subsection \<open>Timing of action results\<close>

lemma map_of_dict_set: "map_of (dict_set d k v) k' = (if k' = k then Some v else map_of d k')"
  by (induction d) auto

lemma finalize_timed:
  assumes "map_of result ''started_at'' = Some (VTime st)"
  shows "field ''started_at'' (fst (finalize h st result w)) = Some (VTime st)
     \<and> field ''completed_at'' (fst (finalize h st result w)) = Some (VTime (clock h w))
     \<and> field ''duration'' (fst (finalize h st result w)) = Some (total_seconds (clock h (Suc w) - st))"
  using assms by (simp add: finalize_def field_def map_of_dict_set)

lemma restart_steps_updated:
  assumes "restart_steps h s i ps st result w = (Updated r', w')"
  shows "map_of r' ''started_at'' = map_of result ''started_at''"
  using assms
  by (auto simp: restart_steps_def map_of_dict_set split: sum.splits option.splits if_splits prod.splits)

lemma restart_steps_returned:
  assumes "restart_steps h s i ps st result w = (Returned r, w')"
  shows "\<exists>msg. r = fst (create_error_result h i msg (Some st) w)"
  using assms
  by (auto simp: restart_steps_def split: sum.splits option.splits if_splits prod.splits)
     (metis fst_conv)+

lemma timing_consistent_fields:
  assumes "field ''started_at'' r = Some (VTime st)"
    and "field ''completed_at'' r = Some (VTime ct)"
    and "field ''duration'' r = Some (total_seconds (t - st))"
  shows "timing_consistent eps r = (\<bar>t - ct\<bar> \<le> eps)"
proof -
  have e: "x / 1000000 * 1000000 = x" for x :: real
    by simp
  have "real_of_int (t - st) / 1000000 * 1000000 - real_of_int (ct - st) = real_of_int (t - ct)"
    unfolding e by simp
  then have "(\<bar>real_of_int (t - st) / 1000000 * 1000000 - real_of_int (ct - st)\<bar> \<le> real_of_int eps)
      = (\<bar>t - ct\<bar> \<le> eps)"
    by (metis of_int_abs of_int_le_iff)
  then show ?thesis
    using assms by (simp add: timing_consistent_def total_seconds_def)
qed

lemma create_error_result_fresh:
  "field ''started_at'' (fst (create_error_result h i msg None w)) = Some (VTime (clock h w))
     \<and> field ''completed_at'' (fst (create_error_result h i msg None w)) = Some (VTime (clock h (Suc w)))
     \<and> field ''duration'' (fst (create_error_result h i msg None w))
         = Some (total_seconds (clock h (Suc (Suc w)) - clock h w))"
  by (simp add: create_error_result_def field_def)

lemma create_error_result_given:
  "field ''started_at'' (fst (create_error_result h i msg (Some st) w)) = Some (VTime st)
     \<and> field ''completed_at'' (fst (create_error_result h i msg (Some st) w)) = Some (VTime (clock h w))
     \<and> field ''duration'' (fst (create_error_result h i msg (Some st) w))
         = Some (total_seconds (clock h (Suc w) - st))"
  by (simp add: create_error_result_def field_def)

lemma execute_restart_command_counter:
  "w \<le> snd (execute_restart_command h name method w)"
  by (auto simp: execute_restart_command_def split: option.splits sum.splits exn.splits prod.splits)

lemma restart_steps_counter:
  assumes "restart_steps h s i ps st result w = (out, w')" and "\<forall>r. out \<noteq> Returned r"
  shows "w \<le> w'"
  using assms execute_restart_command_counter[of w h]
  by (auto simp: restart_steps_def split: sum.splits option.splits if_splits prod.splits)
     (metis snd_conv)+


lemma execute_action_clock:
  assumes "fst (execute_action h req s w) = Inr r"
  shows "\<exists>k. w < k
     \<and> field ''started_at'' r = Some (VTime (clock h w))
     \<and> field ''completed_at'' r = Some (VTime (clock h k))
     \<and> field ''duration'' r = Some (total_seconds (clock h (Suc k) - clock h w))"
proof (cases "running s")
  case False
  with assms obtain i where "r = fst (create_error_result h i ''Plugin is not running'' None w)"
    by (auto simp: execute_action_def split: sum.splits prod.splits) (metis fst_conv)
  with create_error_result_fresh[of h i "''Plugin is not running''" w]
  have "w < Suc w
     \<and> field ''started_at'' r = Some (VTime (clock h w))
     \<and> field ''completed_at'' r = Some (VTime (clock h (Suc w)))
     \<and> field ''duration'' r = Some (total_seconds (clock h (Suc (Suc w)) - clock h w))"
    by simp
  then show ?thesis by blast
next
  case True
  define result where "result = [(''id'', case py_getitem req ''id'' of Inr i \<Rightarrow> i | Inl e \<Rightarrow> VNone),
      (''status'', VStr ''running''), (''started_at'', VTime (clock h w)),
      (''metadata'', VDict [(''plugin_id'', VStr ''service-restart''), (''plugin_version'', VStr ''1.0.0''),
          (''execution_host'', VStr (nodename h))])]"
  have started: "map_of result ''started_at'' = Some (VTime (clock h w))"
    by (simp add: result_def)
  from assms True obtain i ps where i: "py_getitem req ''id'' = Inr i"
    and ps: "py_get req ''parameters'' (VDict []) = Inr ps"
    by (auto simp: execute_action_def Let_def split: sum.splits)
  obtain out w' where st: "restart_steps h s i ps (clock h w) result (Suc w) = (out, w')"
    by (cases "restart_steps h s i ps (clock h w) result (Suc w)") auto
  have res: "result = [(''id'', i),
      (''status'', VStr ''running''), (''started_at'', VTime (clock h w)),
      (''metadata'', VDict [(''plugin_id'', VStr ''service-restart''), (''plugin_version'', VStr ''1.0.0''),
          (''execution_host'', VStr (nodename h))])]"
    by (simp add: result_def i)
  show ?thesis
  proof (cases out)
    case (Returned r0)
    with assms True i ps st res have "r = r0"
      by (simp add: execute_action_def Let_def)
    with restart_steps_returned[OF st[unfolded Returned]]
    obtain msg where "r = fst (create_error_result h i msg (Some (clock h w)) (Suc w))"
      by blast
    with create_error_result_given[of h i msg "clock h w" "Suc w"]
    have "w < Suc w
       \<and> field ''started_at'' r = Some (VTime (clock h w))
       \<and> field ''completed_at'' r = Some (VTime (clock h (Suc w)))
       \<and> field ''duration'' r = Some (total_seconds (clock h (Suc (Suc w)) - clock h w))"
      by simp
    then show ?thesis by blast
  next
    case (Updated r')
    with assms True i ps st res have r: "r = fst (finalize h (clock h w) r' w')"
      by (simp add: execute_action_def Let_def split: prod.splits)
    have later: "w < w'"
      using restart_steps_counter[OF st] Updated by simp
    have "map_of r' ''started_at'' = Some (VTime (clock h w))"
      using restart_steps_updated[OF st[unfolded Updated]] started by simp
    from finalize_timed[OF this, of h w'] r later show ?thesis by blast
  next
    case (Raised e)
    with assms True i ps st res have r: "r = fst (finalize h (clock h w)
        (dict_update result [(''status'', VStr ''failed''), (''error'', VStr (str_exn e))]) w')"
      by (simp add: execute_action_def Let_def split: prod.splits)
    have later: "w < w'"
      using restart_steps_counter[OF st] Raised by simp
    have "map_of (dict_update result [(''status'', VStr ''failed''), (''error'', VStr (str_exn e))])
            ''started_at'' = Some (VTime (clock h w))"
      using started by (simp add: map_of_dict_set)
    from finalize_timed[OF this, of h w'] r later show ?thesis by blast
  qed
qed

lemma jump_completed_run:
  "fst (execute_action jump_host nginx_request svc_running 1) = Inr jump_completed"
  by (simp add: execute_action_def nginx_request_def jump_completed_def svc_running_eq jump_host_def
      demo_host_def
      py_getitem_def py_get_def restart_steps_def as_str_def is_valid_service_name_def name_char_def
      is_manager_def execute_restart_command_def restart_cmd_def lower_def simulate_restart_command_def
      finalize_def Let_def)

lemma jump_refused_run:
  "fst (execute_action jump_host nginx_request svc_new 1) = Inr jump_refused"
  by (simp add: execute_action_def nginx_request_def jump_refused_def svc_new_def jump_host_def
      demo_host_def py_getitem_def create_error_result_def)

lemma jump_start: "fst (snd (start jump_host svc_new 0)) = svc_running"
  by (simp add: svc_running_eq start_def svc_new_def jump_host_def demo_host_def)

text \<open>
  The claim as it is stated fails. \<^verbatim>\<open>execute_action\<close> and \<^verbatim>\<open>_create_error_result\<close> call
  \<^verbatim>\<open>datetime.now()\<close> once for \<^verbatim>\<open>completed_at\<close> and once more for \<^verbatim>\<open>duration\<close>, so the
  duration is not computed from \<^verbatim>\<open>completed_at\<close>: it exceeds \<^verbatim>\<open>completed_at\<close> minus
  \<^verbatim>\<open>started_at\<close> by whatever the clock moved between the two calls. On a host whose clock
  is set forward by one hour between them, both paths return a result with
  \<^verbatim>\<open>started_at\<close> and \<^verbatim>\<open>completed_at\<close> one millisecond apart and a duration of 3600.002
  seconds.
\<close>

theorem action_result_timing_counterexample:
  "fst (snd (start jump_host svc_new 0)) = svc_running
   \<and> fst (execute_action jump_host nginx_request svc_running 1) = Inr jump_completed
   \<and> field ''started_at'' jump_completed = Some (VTime 1000)
   \<and> field ''completed_at'' jump_completed = Some (VTime 2000)
   \<and> field ''duration'' jump_completed = Some (VFloat (Fin (3600002 / 1000)))
   \<and> \<not> timing_consistent 1000000 jump_completed
   \<and> fst (execute_action jump_host nginx_request svc_new 1) = Inr jump_refused
   \<and> field ''started_at'' jump_refused = Some (VTime 1000)
   \<and> field ''completed_at'' jump_refused = Some (VTime 2000)
   \<and> field ''duration'' jump_refused = Some (VFloat (Fin (3600002 / 1000)))
   \<and> \<not> timing_consistent 1000000 jump_refused"
proof -
  have c: "field ''started_at'' jump_completed = Some (VTime 1000)"
    "field ''completed_at'' jump_completed = Some (VTime 2000)"
    "field ''duration'' jump_completed = Some (VFloat (Fin (3600002 / 1000)))"
    "\<not> timing_consistent 1000000 jump_completed"
    by (simp_all add: jump_completed_def field_def total_seconds_def timing_consistent_def)
  have r: "field ''started_at'' jump_refused = Some (VTime 1000)"
    "field ''completed_at'' jump_refused = Some (VTime 2000)"
    "field ''duration'' jump_refused = Some (VFloat (Fin (3600002 / 1000)))"
    "\<not> timing_consistent 1000000 jump_refused"
    by (simp_all add: jump_refused_def field_def total_seconds_def timing_consistent_def)
  from c r jump_start jump_completed_run jump_refused_run show ?thesis
    by simp
qed

text \<open>
  Claim C7, amended. Every result that \<^verbatim>\<open>execute_action\<close> returns, on the path through the
  final update and on the paths through \<^verbatim>\<open>_create_error_result\<close> alike, carries
  \<^verbatim>\<open>started_at\<close>, \<^verbatim>\<open>completed_at\<close> and \<^verbatim>\<open>duration\<close>: \<^verbatim>\<open>started_at\<close> is the first reading
  of the clock in the call, \<^verbatim>\<open>completed_at\<close> a later reading \<open>k\<close>, and \<^verbatim>\<open>duration\<close> the
  reading after that, \<open>k + 1\<close>, minus \<^verbatim>\<open>started_at\<close>. So the duration is \<^verbatim>\<open>completed_at\<close> minus
  \<^verbatim>\<open>started_at\<close> plus the time between these two successive readings, and it is within a
  tolerance \<open>eps\<close> of \<^verbatim>\<open>completed_at\<close> minus \<^verbatim>\<open>started_at\<close> if and only if the two readings
  are at most \<open>eps\<close> apart.
\<close>

theorem action_result_timing:
  assumes "fst (execute_action h req s w) = Inr r"
  shows "\<exists>k. w < k
     \<and> field ''started_at'' r = Some (VTime (clock h w))
     \<and> field ''completed_at'' r = Some (VTime (clock h k))
     \<and> field ''duration'' r = Some (total_seconds (clock h (Suc k) - clock h w))
     \<and> (\<forall>eps. timing_consistent eps r = (\<bar>clock h (Suc k) - clock h k\<bar> \<le> eps))"
proof -
  from execute_action_clock[OF assms] obtain k where k: "w < k"
    and f: "field ''started_at'' r = Some (VTime (clock h w))"
       "field ''completed_at'' r = Some (VTime (clock h k))"
       "field ''duration'' r = Some (total_seconds (clock h (Suc k) - clock h w))"
    by blast
  have "\<forall>eps. timing_consistent eps r = (\<bar>clock h (Suc k) - clock h k\<bar> \<le> eps)"
    using timing_consistent_fields[OF f] by simp
  with k f show ?thesis by blast
qed

lemma nginx_completed:
  "fst (execute_action demo_host nginx_request svc_running 1) = Inr completed_result"
  by (simp add: execute_action_def nginx_request_def completed_result_def svc_running_eq demo_host_def
      py_getitem_def py_get_def restart_steps_def as_str_def is_valid_service_name_def name_char_def
      is_manager_def execute_restart_command_def restart_cmd_def lower_def simulate_restart_command_def
      finalize_def Let_def)

lemma nginx_refused:
  "fst (execute_action demo_host nginx_request svc_new 0) = Inr refused_result"
  by (simp add: execute_action_def nginx_request_def refused_result_def svc_new_def demo_host_def
      py_getitem_def create_error_result_def)

theorem action_result_timing_witness:
  "fst (execute_action demo_host nginx_request svc_running 1) = Inr completed_result
   \<and> (\<exists>k. 1 < k
        \<and> field ''started_at'' completed_result = Some (VTime (clock demo_host 1))
        \<and> field ''completed_at'' completed_result = Some (VTime (clock demo_host k))
        \<and> field ''duration'' completed_result
            = Some (total_seconds (clock demo_host (Suc k) - clock demo_host 1))
        \<and> (\<forall>eps. timing_consistent eps completed_result
                   = (\<bar>clock demo_host (Suc k) - clock demo_host k\<bar> \<le> eps)))
   \<and> field ''started_at'' completed_result = Some (VTime 1000)
   \<and> field ''completed_at'' completed_result = Some (VTime 2000)
   \<and> field ''duration'' completed_result = Some (VFloat (Fin (2 / 1000)))
   \<and> timing_consistent 1000 completed_result
   \<and> \<not> timing_consistent 999 completed_result
   \<and> fst (execute_action demo_host nginx_request svc_new 0) = Inr refused_result
   \<and> (\<exists>k. 0 < k
        \<and> field ''started_at'' refused_result = Some (VTime (clock demo_host 0))
        \<and> field ''completed_at'' refused_result = Some (VTime (clock demo_host k))
        \<and> field ''duration'' refused_result
            = Some (total_seconds (clock demo_host (Suc k) - clock demo_host 0))
        \<and> (\<forall>eps. timing_consistent eps refused_result
                   = (\<bar>clock demo_host (Suc k) - clock demo_host k\<bar> \<le> eps)))"
proof -
  have c: "field ''started_at'' completed_result = Some (VTime 1000)"
    "field ''completed_at'' completed_result = Some (VTime 2000)"
    "field ''duration'' completed_result = Some (VFloat (Fin (2 / 1000)))"
    "timing_consistent 1000 completed_result"
    "\<not> timing_consistent 999 completed_result"
    by (simp_all add: completed_result_def field_def total_seconds_def timing_consistent_def)
  from c nginx_completed nginx_refused
    action_result_timing [OF nginx_completed] action_result_timing [OF nginx_refused]
  show ?thesis by simp
qed

end
